theory Spec2Isabelle
  imports Main
begin

section \<open>Tokens, cursors and failures\<close>

text \<open>
  The token stream is a \<^verbatim>\<open>std::vector<std::string>\<close>; an iterator into it is the
  index of the token it points at, and the \<^verbatim>\<open>end()\<close> iterator of a vector \<open>ts\<close> is
  \<open>length ts\<close>.

  The source signals failure by throwing. Every \<^verbatim>\<open>throw std::runtime_error(msg)\<close> is
  the value \<open>Runtime_error msg\<close>; \<^verbatim>\<open>std::stoi\<close> and \<^verbatim>\<open>std::stod\<close> throw
  \<^verbatim>\<open>std::invalid_argument\<close> and \<^verbatim>\<open>std::out_of_range\<close>. Reading \<^verbatim>\<open>*it\<close> when \<open>it\<close>
  does not point at a token of the vector has no defined behaviour in C++, and neither
  has incrementing the \<^verbatim>\<open>end()\<close> iterator; the model makes both an outcome of its
  own, \<open>Past_the_end\<close>, so that no result is invented for them.
\<close>

datatype error =
    Runtime_error string
  | Invalid_argument string
  | Out_of_range string
  | Past_the_end

text \<open>A call that does not return is \<open>None\<close>; one that returns or throws is \<open>Some\<close>.\<close>

type_synonym 'a result = "(error + 'a) option"

definition deref :: "string list \<Rightarrow> nat \<Rightarrow> string option" where
  "deref ts it = (if it < length ts then Some (ts ! it) else None)"

subsection \<open>Case folding\<close>

text \<open>
  \<^verbatim>\<open>toupper\<close> and \<^verbatim>\<open>tolower\<close> of the C library, in the \<^verbatim>\<open>"C"\<close> locale: the 26 letters
  of ASCII change case, every other character is left as it is.
\<close>

definition toupper :: "char \<Rightarrow> char" where
  "toupper c =
     (case map_of (zip ''abcdefghijklmnopqrstuvwxyz'' ''ABCDEFGHIJKLMNOPQRSTUVWXYZ'') c of
        Some u \<Rightarrow> u
      | None \<Rightarrow> c)"

definition tolower :: "char \<Rightarrow> char" where
  "tolower c =
     (case map_of (zip ''ABCDEFGHIJKLMNOPQRSTUVWXYZ'' ''abcdefghijklmnopqrstuvwxyz'') c of
        Some l \<Rightarrow> l
      | None \<Rightarrow> c)"

text \<open>
  Modelled from the spec: \<^verbatim>\<open>to_upper\<close> is declared in \<^verbatim>\<open>utils.hpp\<close>, which is not among
  the sources. The spec says that a token is normalized by case folding before it is
  looked up in a command table or in an enumerated set of keywords, all of which are
  upper case: the token is converted to upper case, character by character.
\<close>

definition to_upper :: "string \<Rightarrow> string" where
  "to_upper input = map toupper input"

text \<open>
  Modelled from the spec: \<^verbatim>\<open>to_lower\<close> is declared in \<^verbatim>\<open>utils.hpp\<close>, which is not among
  the sources. The spec's scenario A has the token \<^verbatim>\<open>RED\<close> stored as the colour
  \<^verbatim>\<open>red\<close>: the token is converted to lower case, character by character.
\<close>

definition to_lower :: "string \<Rightarrow> string" where
  "to_lower input = map tolower input"

subsection \<open>Numeric conversion\<close>

text \<open>
  \<^verbatim>\<open>std::stoi\<close> (base 10) of the C++ standard library: leading white space is skipped,
  an optional sign and the longest run of decimal digits are read, the rest of the
  string is ignored; no digit at all is \<^verbatim>\<open>std::invalid_argument\<close>, a value outside
  the 32-bit \<^verbatim>\<open>int\<close> is \<^verbatim>\<open>std::out_of_range\<close>.
\<close>

definition isspace :: "char \<Rightarrow> bool" where
  "isspace c \<longleftrightarrow> c \<in> set [CHR '' '', CHR 0x09, CHR 0x0A, CHR 0x0B, CHR 0x0C, CHR 0x0D]"

definition digit_value :: "char \<Rightarrow> int option" where
  "digit_value c = map_of (zip ''0123456789'' [0, 1, 2, 3, 4, 5, 6, 7, 8, 9]) c"

definition isdigit :: "char \<Rightarrow> bool" where
  "isdigit c \<longleftrightarrow> digit_value c \<noteq> None"

definition decimal :: "string \<Rightarrow> int" where
  "decimal ds = foldl (\<lambda>a c. 10 * a + (case digit_value c of Some d \<Rightarrow> d | None \<Rightarrow> 0)) 0 ds"

definition stoi :: "string \<Rightarrow> error + int" where
  "stoi str =
     (let s1 = dropWhile isspace str;
          negative = (case s1 of c # _ \<Rightarrow> c = CHR ''-'' | [] \<Rightarrow> False);
          s2 = (case s1 of c # r \<Rightarrow> if c = CHR ''-'' \<or> c = CHR ''+'' then r else s1 | [] \<Rightarrow> []);
          ds = takeWhile isdigit s2;
          v = (if negative then - decimal ds else decimal ds)
      in if ds = [] then Inl (Invalid_argument ''stoi'')
         else if v < - 2147483648 \<or> 2147483647 < v then Inl (Out_of_range ''stoi'')
         else Inr v)"

text \<open>
  \<^verbatim>\<open>std::stod\<close> yields a floating-point number. The functions below take it as a
  parameter \<open>stod\<close>, which gives either the exception thrown or the \<^verbatim>\<open>double\<close>,
  a value of a type \<open>'d\<close> left open.
\<close>

type_synonym 'd stod_fun = "string \<Rightarrow> error + 'd"

section \<open>The chart model\<close>

text \<open>
  The objects of the xvega library that the parsers write to. A property is \<open>None\<close>
  until a parser stores a value in it.
\<close>

record 'd Bin =
  bin_anchor :: "'d option"
  bin_base :: "'d option"
  bin_binned :: "bool option"
  bin_maxbins :: "'d option"
  bin_minstep :: "'d option"
  bin_nice :: "bool option"
  bin_step :: "'d option"

definition new_Bin :: "'d Bin" where
  "new_Bin = \<lparr>bin_anchor = None, bin_base = None, bin_binned = None, bin_maxbins = None,
              bin_minstep = None, bin_nice = None, bin_step = None\<rparr>"

text \<open>The \<^verbatim>\<open>bin\<close> property of an encoding holds a flag or a \<^verbatim>\<open>xv::Bin\<close>.\<close>

datatype 'd bin_value = Bin_flag bool | Bin_object "'d Bin"

text \<open>\<^verbatim>\<open>xv::X\<close> and \<^verbatim>\<open>xv::Y\<close>: the parsers treat both alike, through \<^verbatim>\<open>xtl::visit\<close>.\<close>

record 'd field_enc =
  enc_field :: "string option"
  enc_type :: "string option"
  enc_bin :: "'d bin_value option"
  enc_aggregate :: "string option"
  enc_timeUnit :: "string option"

definition new_field_enc :: "'d field_enc" where
  "new_field_enc = \<lparr>enc_field = None, enc_type = None, enc_bin = None,
                    enc_aggregate = None, enc_timeUnit = None\<rparr>"

datatype mark_kind =
    mark_arc | mark_area | mark_bar | mark_circle | mark_line | mark_point
  | mark_rect | mark_rule | mark_square | mark_tick | mark_trail

text \<open>
  The \<^verbatim>\<open>mark\<close> property is type-erased (\<^verbatim>\<open>xv::xany\<close>): it is empty or holds a mark object
  of one of the eleven kinds, of which the parsers touch the colour only.
\<close>

datatype xany = Any_empty | Any_mark mark_kind "string option"

datatype type_index = Type_void | Type_closure_wrapper mark_kind

fun any_type :: "xany \<Rightarrow> type_index" where
  "any_type Any_empty = Type_void"
| "any_type (Any_mark k c) = Type_closure_wrapper k"

fun mark_name :: "mark_kind \<Rightarrow> string" where
  "mark_name mark_arc = ''mark_arc''"
| "mark_name mark_area = ''mark_area''"
| "mark_name mark_bar = ''mark_bar''"
| "mark_name mark_circle = ''mark_circle''"
| "mark_name mark_line = ''mark_line''"
| "mark_name mark_point = ''mark_point''"
| "mark_name mark_rect = ''mark_rect''"
| "mark_name mark_rule = ''mark_rule''"
| "mark_name mark_square = ''mark_square''"
| "mark_name mark_tick = ''mark_tick''"
| "mark_name mark_trail = ''mark_trail''"

text \<open>The readable name of a type, as \<^verbatim>\<open>demangle(a.type().name())\<close> gives it.\<close>

fun demangle :: "type_index \<Rightarrow> string" where
  "demangle Type_void = ''void''"
| "demangle (Type_closure_wrapper k) = ''xtl::xclosure_wrapper<xv::'' @ mark_name k @ ''&>''"

text \<open>\<^verbatim>\<open>std::quoted\<close>: the string between double quotes, quotes and backslashes escaped.\<close>

definition quoted :: "string \<Rightarrow> string" where
  "quoted s =
     CHR 0x22 # concat (map (\<lambda>c. if c = CHR 0x22 \<or> c = CHR 0x5C then [CHR 0x5C, c] else [c]) s)
       @ [CHR 0x22]"

record ('d, 'df) Chart =
  chart_data :: "'df option"
  chart_encoding_x :: "'d field_enc option"
  chart_encoding_y :: "'d field_enc option"
  chart_mark :: xany
  chart_width :: "int option"
  chart_height :: "int option"
  chart_config_axis_grid :: "bool option"

definition new_Chart :: "('d, 'df) Chart" where
  "new_Chart = \<lparr>chart_data = None, chart_encoding_x = None, chart_encoding_y = None,
                chart_mark = Any_empty, chart_width = None, chart_height = None,
                chart_config_axis_grid = None\<rparr>"

section \<open>parser\_base: the engine\<close>

text \<open>
  A parse function of the first kind (\<^verbatim>\<open>point_it_fun\<close>) gets the tokens and one
  iterator and changes the parser's target; one of the second kind
  (\<^verbatim>\<open>range_it_fun\<close>) gets the iterators \<open>begin\<close> and \<open>end\<close> and also returns the
  iterator where parsing goes on. A range function may run the loop of another
  parser, so it may not return.
\<close>

type_synonym 's point_it_fun = "string list \<Rightarrow> nat \<Rightarrow> 's \<Rightarrow> error + 's"
type_synonym 's range_it_fun = "string list \<Rightarrow> nat \<Rightarrow> nat \<Rightarrow> 's \<Rightarrow> (nat \<times> 's) result"

datatype 's parse_function_types =
    Point_it_fun "'s point_it_fun"
  | Range_it_fun "'s range_it_fun"

record 's command_info =
  number_required_arguments :: int
  parse_function :: "'s parse_function_types"

text \<open>
  What a subclass of \<^verbatim>\<open>parser_base\<close> supplies: its \<^verbatim>\<open>mapping_table\<close> and its
  \<^verbatim>\<open>parse_init\<close>. The state \<open>'s\<close> is what the subclass's members refer to.
\<close>

record 's parser =
  mapping_table :: "string \<rightharpoonup> 's command_info"
  parse_init :: "'s range_it_fun"

definition simple_switch ::
  "string \<Rightarrow> (string \<times> ('s \<Rightarrow> 's)) list \<Rightarrow> 's \<Rightarrow> bool \<times> 's" where
  "simple_switch token handlers s =
     (case map_of handlers (to_upper token) of
        None \<Rightarrow> (False, s)
      | Some handler \<Rightarrow> (True, handler s))"

definition parse_init_default :: "'s range_it_fun" where
  "parse_init_default ts begin fin s = Some (Inr (begin, s))"

text \<open>
  After a point function has returned, \<^verbatim>\<open>parse_step\<close> increments the iterator it
  passed to it. All point functions of the program but one read the token there
  first; \<^verbatim>\<open>parse_color\<close> reads it in its visitors only. When no token is there, the
  iterator is \<^verbatim>\<open>end()\<close> and the increment is undefined.
\<close>

definition parse_step ::
  "'s parser \<Rightarrow> string list \<Rightarrow> nat \<Rightarrow> nat \<Rightarrow> 's \<Rightarrow> (nat \<times> 's) result" where
  "parse_step p ts begin fin s =
     (case deref ts begin of
        None \<Rightarrow> Some (Inl Past_the_end)
      | Some tok \<Rightarrow>
          (case mapping_table p (to_upper tok) of
             None \<Rightarrow> Some (Inr (begin, s))
           | Some cmd_info \<Rightarrow>
               if int fin - int begin < number_required_arguments cmd_info
               then Some (Inl (Runtime_error ''Arguments missing.''))
               else (case parse_function cmd_info of
                       Point_it_fun f \<Rightarrow>
                         (case f ts (begin + 1) s of
                            Inl e \<Rightarrow> Some (Inl e)
                          | Inr s' \<Rightarrow>
                              if begin + 1 < length ts then Some (Inr (begin + 1 + 1, s'))
                              else Some (Inl Past_the_end))
                     | Range_it_fun f \<Rightarrow> f ts (begin + 1) fin s)))"

text \<open>The \<^verbatim>\<open>while\<close> loop of \<^verbatim>\<open>parse_loop\<close>, from the iterator \<open>it\<close>.\<close>

partial_function (option) parse_loop_from ::
  "'s parser \<Rightarrow> string list \<Rightarrow> nat \<Rightarrow> nat \<Rightarrow> 's \<Rightarrow> (error + nat \<times> 's) option" where
  "parse_loop_from p ts it fin s =
     (if it = fin then Some (Inr (it, s))
      else (case parse_step p ts it fin s of
              None \<Rightarrow> None
            | Some (Inl e) \<Rightarrow> Some (Inl e)
            | Some (Inr (next, s')) \<Rightarrow>
                if next = it then Some (Inr (it, s'))
                else parse_loop_from p ts next fin s'))"

declare parse_loop_from.simps [code]

definition parse_loop ::
  "'s parser \<Rightarrow> string list \<Rightarrow> nat \<Rightarrow> nat \<Rightarrow> 's \<Rightarrow> (nat \<times> 's) result" where
  "parse_loop p ts begin fin s =
     (case parse_init p ts begin fin s of
        None \<Rightarrow> None
      | Some (Inl e) \<Rightarrow> Some (Inl e)
      | Some (Inr (it, s')) \<Rightarrow> parse_loop_from p ts it fin s')"

text \<open>
  The loop as the specification words it: from the cursor the init step returned,
  \<^verbatim>\<open>step\<close> is applied again and again until the cursor reaches \<open>end\<close> or a call
  returns the cursor it was given; that cursor is the result. \<open>loop_spec p ts fin it s r\<close>
  holds when the loop started at \<open>it\<close> in state \<open>s\<close> halts with the outcome \<open>r\<close>.
\<close>

inductive loop_spec ::
  "'s parser \<Rightarrow> string list \<Rightarrow> nat \<Rightarrow> nat \<Rightarrow> 's \<Rightarrow> error + nat \<times> 's \<Rightarrow> bool"
  for p :: "'s parser" and ts :: "string list" and fin :: nat where
  reached_end: "loop_spec p ts fin fin s (Inr (fin, s))"
| no_progress:
    "it \<noteq> fin \<Longrightarrow> parse_step p ts it fin s = Some (Inr (it, s')) \<Longrightarrow>
     loop_spec p ts fin it s (Inr (it, s'))"
| failed:
    "it \<noteq> fin \<Longrightarrow> parse_step p ts it fin s = Some (Inl e) \<Longrightarrow>
     loop_spec p ts fin it s (Inl e)"
| progress:
    "it \<noteq> fin \<Longrightarrow> parse_step p ts it fin s = Some (Inr (next, s')) \<Longrightarrow> next \<noteq> it \<Longrightarrow>
     loop_spec p ts fin next s' r \<Longrightarrow> loop_spec p ts fin it s r"

subsection \<open>The visitor of a type-erased value\<close>

text \<open>
  \<^verbatim>\<open>visit_any\<close> looks the type of the value up in the visitor map and calls the
  visitor found; otherwise it writes a line to \<^verbatim>\<open>std::cout\<close>. The result is the
  outcome for the state the visitors refer to, and the text written.
\<close>

type_synonym 's visitor_map_type = "type_index \<rightharpoonup> (xany \<Rightarrow> 's \<Rightarrow> error + 's)"

definition visit_any :: "xany \<Rightarrow> 's visitor_map_type \<Rightarrow> 's \<Rightarrow> (error + 's) \<times> string list" where
  "visit_any a any_visitor s =
     (case any_visitor (any_type a) of
        Some visitor \<Rightarrow> (visitor a s, [])
      | None \<Rightarrow> (Inr s, [''Unregistered type '' @ quoted (demangle (any_type a))]))"

section \<open>bin\_parser\<close>

text \<open>
  The target of a \<^verbatim>\<open>bin_parser\<close>: the \<^verbatim>\<open>xv::Bin\<close> it refers to and its counter of
  applied attributes (an \<^verbatim>\<open>int\<close>; it would take more than two thousand million
  attributes to overflow it).
\<close>

record 'd bin_parser =
  bin :: "'d Bin"
  num_parsed_attrs :: int

definition parse_bin_anchor :: "'d stod_fun \<Rightarrow> 'd bin_parser point_it_fun" where
  "parse_bin_anchor stod ts it p =
     (case deref ts it of
        None \<Rightarrow> Inl Past_the_end
      | Some tok \<Rightarrow>
          (case stod tok of
             Inl e \<Rightarrow> Inl e
           | Inr v \<Rightarrow> Inr (p\<lparr>bin := (bin p)\<lparr>bin_anchor := Some v\<rparr>,
                            num_parsed_attrs := num_parsed_attrs p + 1\<rparr>)))"

definition parse_bin_base :: "'d stod_fun \<Rightarrow> 'd bin_parser point_it_fun" where
  "parse_bin_base stod ts it p =
     (case deref ts it of
        None \<Rightarrow> Inl Past_the_end
      | Some tok \<Rightarrow>
          (case stod tok of
             Inl e \<Rightarrow> Inl e
           | Inr v \<Rightarrow> Inr (p\<lparr>bin := (bin p)\<lparr>bin_base := Some v\<rparr>,
                            num_parsed_attrs := num_parsed_attrs p + 1\<rparr>)))"

definition parse_bin_binned :: "'d bin_parser point_it_fun" where
  "parse_bin_binned ts it p =
     (case deref ts it of
        None \<Rightarrow> Inl Past_the_end
      | Some tok \<Rightarrow>
          Inr (snd (simple_switch tok
            [(''TRUE'', \<lambda>p. p\<lparr>bin := (bin p)\<lparr>bin_binned := Some True\<rparr>,
                              num_parsed_attrs := num_parsed_attrs p + 1\<rparr>),
             (''FALSE'', \<lambda>p. p\<lparr>bin := (bin p)\<lparr>bin_binned := Some False\<rparr>,
                               num_parsed_attrs := num_parsed_attrs p + 1\<rparr>)] p)))"

definition parse_bin_maxbins :: "'d stod_fun \<Rightarrow> 'd bin_parser point_it_fun" where
  "parse_bin_maxbins stod ts it p =
     (case deref ts it of
        None \<Rightarrow> Inl Past_the_end
      | Some tok \<Rightarrow>
          (case stod tok of
             Inl e \<Rightarrow> Inl e
           | Inr v \<Rightarrow> Inr (p\<lparr>bin := (bin p)\<lparr>bin_maxbins := Some v\<rparr>,
                            num_parsed_attrs := num_parsed_attrs p + 1\<rparr>)))"

definition parse_bin_minstep :: "'d stod_fun \<Rightarrow> 'd bin_parser point_it_fun" where
  "parse_bin_minstep stod ts it p =
     (case deref ts it of
        None \<Rightarrow> Inl Past_the_end
      | Some tok \<Rightarrow>
          (case stod tok of
             Inl e \<Rightarrow> Inl e
           | Inr v \<Rightarrow> Inr (p\<lparr>bin := (bin p)\<lparr>bin_minstep := Some v\<rparr>,
                            num_parsed_attrs := num_parsed_attrs p + 1\<rparr>)))"

definition parse_bin_nice :: "'d bin_parser point_it_fun" where
  "parse_bin_nice ts it p =
     (case deref ts it of
        None \<Rightarrow> Inl Past_the_end
      | Some tok \<Rightarrow>
          Inr (snd (simple_switch tok
            [(''TRUE'', \<lambda>p. p\<lparr>bin := (bin p)\<lparr>bin_nice := Some True\<rparr>,
                              num_parsed_attrs := num_parsed_attrs p + 1\<rparr>),
             (''FALSE'', \<lambda>p. p\<lparr>bin := (bin p)\<lparr>bin_nice := Some False\<rparr>,
                               num_parsed_attrs := num_parsed_attrs p + 1\<rparr>)] p)))"

definition parse_bin_step :: "'d stod_fun \<Rightarrow> 'd bin_parser point_it_fun" where
  "parse_bin_step stod ts it p =
     (case deref ts it of
        None \<Rightarrow> Inl Past_the_end
      | Some tok \<Rightarrow>
          (case stod tok of
             Inl e \<Rightarrow> Inl e
           | Inr v \<Rightarrow> Inr (p\<lparr>bin := (bin p)\<lparr>bin_step := Some v\<rparr>,
                            num_parsed_attrs := num_parsed_attrs p + 1\<rparr>)))"

definition bin_mapping_table :: "'d stod_fun \<Rightarrow> (string \<times> 'd bin_parser command_info) list" where
  "bin_mapping_table stod =
     [(''ANCHOR'',  \<lparr>number_required_arguments = 1, parse_function = Point_it_fun (parse_bin_anchor stod)\<rparr>),
      (''BASE'',    \<lparr>number_required_arguments = 1, parse_function = Point_it_fun (parse_bin_base stod)\<rparr>),
      (''BINNED'',  \<lparr>number_required_arguments = 1, parse_function = Point_it_fun parse_bin_binned\<rparr>),
      (''MAXBINS'', \<lparr>number_required_arguments = 1, parse_function = Point_it_fun (parse_bin_maxbins stod)\<rparr>),
      (''MINSTEP'', \<lparr>number_required_arguments = 1, parse_function = Point_it_fun (parse_bin_minstep stod)\<rparr>),
      (''NICE'',    \<lparr>number_required_arguments = 1, parse_function = Point_it_fun parse_bin_nice\<rparr>),
      (''STEP'',    \<lparr>number_required_arguments = 1, parse_function = Point_it_fun (parse_bin_step stod)\<rparr>)]"

definition bin_parser :: "'d stod_fun \<Rightarrow> 'd bin_parser parser" where
  "bin_parser stod =
     \<lparr>mapping_table = map_of (bin_mapping_table stod), parse_init = parse_init_default\<rparr>"

section \<open>field\_parser\<close>

text \<open>The target of a \<^verbatim>\<open>field_parser\<close> is the encoding \<^verbatim>\<open>enc\<close> points to.\<close>

definition field_parse_init :: "'d field_enc range_it_fun" where
  "field_parse_init ts begin fin x_or_y =
     (case deref ts begin of
        None \<Rightarrow> Some (Inl Past_the_end)
      | Some tok \<Rightarrow>
          Some (Inr (begin + 1, x_or_y\<lparr>enc_field := Some tok, enc_type := Some ''quantitative''\<rparr>)))"

definition parse_field_bin :: "'d stod_fun \<Rightarrow> 'd field_enc range_it_fun" where
  "parse_field_bin stod ts begin fin x_or_y =
     (case deref ts begin of
        None \<Rightarrow> Some (Inl Past_the_end)
      | Some tok \<Rightarrow>
          (case simple_switch tok
                  [(''TRUE'',  \<lambda>x. x\<lparr>enc_bin := Some (Bin_flag True)\<rparr>),
                   (''FALSE'', \<lambda>x. x\<lparr>enc_bin := Some (Bin_flag False)\<rparr>)] x_or_y of
             (True, x_or_y') \<Rightarrow> Some (Inr (begin + 1, x_or_y'))
           | (False, x_or_y') \<Rightarrow>
               (case parse_loop (bin_parser stod) ts begin fin
                       \<lparr>bin = new_Bin, num_parsed_attrs = 0\<rparr> of
                  None \<Rightarrow> None
                | Some (Inl e) \<Rightarrow> Some (Inl e)
                | Some (Inr (it, parser)) \<Rightarrow>
                    if num_parsed_attrs parser = 0
                    then Some (Inl (Runtime_error ''Missing or invalid BIN type''))
                    else Some (Inr (it, x_or_y'\<lparr>enc_bin := Some (Bin_object (bin parser))\<rparr>)))))"

definition field_type_cases :: "(string \<times> ('d field_enc \<Rightarrow> 'd field_enc)) list" where
  "field_type_cases =
     [(''QUANTITATIVE'', \<lambda>x. x\<lparr>enc_type := Some ''quantitative''\<rparr>),
      (''NOMINAL'',      \<lambda>x. x\<lparr>enc_type := Some ''nominal''\<rparr>),
      (''ORDINAL'',      \<lambda>x. x\<lparr>enc_type := Some ''ordinal''\<rparr>),
      (''TEMPORAL'',     \<lambda>x. x\<lparr>enc_type := Some ''temporal''\<rparr>)]"

definition parse_field_type :: "'d field_enc point_it_fun" where
  "parse_field_type ts it x_or_y =
     (case deref ts it of
        None \<Rightarrow> Inl Past_the_end
      | Some tok \<Rightarrow>
          (case simple_switch tok field_type_cases x_or_y of
             (True, x_or_y') \<Rightarrow> Inr x_or_y'
           | (False, x_or_y') \<Rightarrow> Inl (Runtime_error ''Missing or invalid TYPE type'')))"

definition field_aggregate_cases :: "(string \<times> ('d field_enc \<Rightarrow> 'd field_enc)) list" where
  "field_aggregate_cases =
     [(''COUNT'',     \<lambda>x. x\<lparr>enc_aggregate := Some ''count''\<rparr>),
      (''VALID'',     \<lambda>x. x\<lparr>enc_aggregate := Some ''valid''\<rparr>),
      (''MISSING'',   \<lambda>x. x\<lparr>enc_aggregate := Some ''missing''\<rparr>),
      (''DISTINCT'',  \<lambda>x. x\<lparr>enc_aggregate := Some ''distinct''\<rparr>),
      (''SUM'',       \<lambda>x. x\<lparr>enc_aggregate := Some ''sum''\<rparr>),
      (''PRODUCT'',   \<lambda>x. x\<lparr>enc_aggregate := Some ''product''\<rparr>),
      (''MEAN'',      \<lambda>x. x\<lparr>enc_aggregate := Some ''mean''\<rparr>),
      (''AVERAGE'',   \<lambda>x. x\<lparr>enc_aggregate := Some ''average''\<rparr>),
      (''VARIANCE'',  \<lambda>x. x\<lparr>enc_aggregate := Some ''variance''\<rparr>),
      (''VARIANCEP'', \<lambda>x. x\<lparr>enc_aggregate := Some ''variancep''\<rparr>),
      (''STDEV'',     \<lambda>x. x\<lparr>enc_aggregate := Some ''stdev''\<rparr>),
      (''STEDEVP'',   \<lambda>x. x\<lparr>enc_aggregate := Some ''stedevp''\<rparr>),
      (''STEDERR'',   \<lambda>x. x\<lparr>enc_aggregate := Some ''stederr''\<rparr>),
      (''MEDIAN'',    \<lambda>x. x\<lparr>enc_aggregate := Some ''median''\<rparr>),
      (''Q1'',        \<lambda>x. x\<lparr>enc_aggregate := Some ''q1''\<rparr>),
      (''Q3'',        \<lambda>x. x\<lparr>enc_aggregate := Some ''q3''\<rparr>),
      (''CI0'',       \<lambda>x. x\<lparr>enc_aggregate := Some ''ci0''\<rparr>),
      (''CI1'',       \<lambda>x. x\<lparr>enc_aggregate := Some ''ci1''\<rparr>),
      (''MIN'',       \<lambda>x. x\<lparr>enc_aggregate := Some ''min''\<rparr>),
      (''MAX'',       \<lambda>x. x\<lparr>enc_aggregate := Some ''max''\<rparr>),
      (''ARGMIN'',    \<lambda>x. x\<lparr>enc_aggregate := Some ''argmin''\<rparr>),
      (''ARGMAX'',    \<lambda>x. x\<lparr>enc_aggregate := Some ''argmax''\<rparr>)]"

definition parse_field_aggregate :: "'d field_enc range_it_fun" where
  "parse_field_aggregate ts begin fin x_or_y =
     (case deref ts begin of
        None \<Rightarrow> Some (Inl Past_the_end)
      | Some tok \<Rightarrow>
          (case simple_switch tok field_aggregate_cases x_or_y of
             (True, x_or_y') \<Rightarrow> Some (Inr (begin + 1, x_or_y'))
           | (False, x_or_y') \<Rightarrow> Some (Inl (Runtime_error ''Missing or invalid AGGREGATE type''))))"

definition field_time_unit_cases :: "(string \<times> ('d field_enc \<Rightarrow> 'd field_enc)) list" where
  "field_time_unit_cases =
     [(''YEAR'',        \<lambda>x. x\<lparr>enc_timeUnit := Some ''year''\<rparr>),
      (''QUARTER'',     \<lambda>x. x\<lparr>enc_timeUnit := Some ''quarter''\<rparr>),
      (''MONTH'',       \<lambda>x. x\<lparr>enc_timeUnit := Some ''month''\<rparr>),
      (''DAY'',         \<lambda>x. x\<lparr>enc_timeUnit := Some ''day''\<rparr>),
      (''DATE'',        \<lambda>x. x\<lparr>enc_timeUnit := Some ''date''\<rparr>),
      (''HOURS'',       \<lambda>x. x\<lparr>enc_timeUnit := Some ''hours''\<rparr>),
      (''MINUTES'',     \<lambda>x. x\<lparr>enc_timeUnit := Some ''minutes''\<rparr>),
      (''SECONDS'',     \<lambda>x. x\<lparr>enc_timeUnit := Some ''seconds''\<rparr>),
      (''MILISECONDS'', \<lambda>x. x\<lparr>enc_timeUnit := Some ''miliseconds''\<rparr>)]"

definition parse_field_time_unit :: "'d field_enc point_it_fun" where
  "parse_field_time_unit ts it x_or_y =
     (case deref ts it of
        None \<Rightarrow> Inl Past_the_end
      | Some tok \<Rightarrow>
          (case simple_switch tok field_time_unit_cases x_or_y of
             (True, x_or_y') \<Rightarrow> Inr x_or_y'
           | (False, x_or_y') \<Rightarrow> Inl (Runtime_error ''Missing or invalid TIME_UNIT type'')))"

definition field_mapping_table :: "'d stod_fun \<Rightarrow> (string \<times> 'd field_enc command_info) list" where
  "field_mapping_table stod =
     [(''TYPE'',      \<lparr>number_required_arguments = 1, parse_function = Point_it_fun parse_field_type\<rparr>),
      (''BIN'',       \<lparr>number_required_arguments = 1, parse_function = Range_it_fun (parse_field_bin stod)\<rparr>),
      (''AGGREGATE'', \<lparr>number_required_arguments = 1, parse_function = Range_it_fun parse_field_aggregate\<rparr>),
      (''TIME_UNIT'', \<lparr>number_required_arguments = 1, parse_function = Point_it_fun parse_field_time_unit\<rparr>)]"

definition field_parser :: "'d stod_fun \<Rightarrow> 'd field_enc parser" where
  "field_parser stod =
     \<lparr>mapping_table = map_of (field_mapping_table stod), parse_init = field_parse_init\<rparr>"

section \<open>mark\_parser\<close>

text \<open>The target of a \<^verbatim>\<open>mark_parser\<close> is the chart.\<close>

definition mark_cases :: "(string \<times> (('d, 'df) Chart \<Rightarrow> ('d, 'df) Chart)) list" where
  "mark_cases =
     [(''ARC'',    \<lambda>c. c\<lparr>chart_mark := Any_mark mark_arc None\<rparr>),
      (''AREA'',   \<lambda>c. c\<lparr>chart_mark := Any_mark mark_area None\<rparr>),
      (''BAR'',    \<lambda>c. c\<lparr>chart_mark := Any_mark mark_bar None\<rparr>),
      (''CIRCLE'', \<lambda>c. c\<lparr>chart_mark := Any_mark mark_circle None\<rparr>),
      (''LINE'',   \<lambda>c. c\<lparr>chart_mark := Any_mark mark_line None\<rparr>),
      (''POINT'',  \<lambda>c. c\<lparr>chart_mark := Any_mark mark_point None\<rparr>),
      (''RECT'',   \<lambda>c. c\<lparr>chart_mark := Any_mark mark_rect None\<rparr>),
      (''RULE'',   \<lambda>c. c\<lparr>chart_mark := Any_mark mark_rule None\<rparr>),
      (''SQUARE'', \<lambda>c. c\<lparr>chart_mark := Any_mark mark_square None\<rparr>),
      (''TICK'',   \<lambda>c. c\<lparr>chart_mark := Any_mark mark_tick None\<rparr>),
      (''TRAIL'',  \<lambda>c. c\<lparr>chart_mark := Any_mark mark_trail None\<rparr>)]"

definition mark_parse_init :: "('d, 'df) Chart range_it_fun" where
  "mark_parse_init ts begin fin chart =
     (case deref ts begin of
        None \<Rightarrow> Some (Inl Past_the_end)
      | Some tok \<Rightarrow>
          (case simple_switch tok mark_cases chart of
             (True, chart') \<Rightarrow> Some (Inr (begin + 1, chart'))
           | (False, chart') \<Rightarrow> Some (Inl (Runtime_error ''Missing or invalid MARK type''))))"

text \<open>
  A visitor of \<^verbatim>\<open>parse_color\<close>: it reads the token when it is called, and sets the
  colour of the mark object it is given, which is the chart's.
\<close>

fun set_color :: "string \<Rightarrow> xany \<Rightarrow> xany" where
  "set_color v (Any_mark k c) = Any_mark k (Some v)"
| "set_color v Any_empty = Any_empty"

definition color_visitor ::
  "string list \<Rightarrow> nat \<Rightarrow> xany \<Rightarrow> ('d, 'df) Chart \<Rightarrow> error + ('d, 'df) Chart" where
  "color_visitor ts it mark_generic chart =
     (case deref ts it of
        None \<Rightarrow> Inl Past_the_end
      | Some tok \<Rightarrow> Inr (chart\<lparr>chart_mark := set_color (to_lower tok) mark_generic\<rparr>))"

definition color_visitors ::
  "string list \<Rightarrow> nat \<Rightarrow>
   (type_index \<times> (xany \<Rightarrow> ('d, 'df) Chart \<Rightarrow> error + ('d, 'df) Chart)) list" where
  "color_visitors ts it =
     [(Type_closure_wrapper mark_arc,    color_visitor ts it),
      (Type_closure_wrapper mark_area,   color_visitor ts it),
      (Type_closure_wrapper mark_bar,    color_visitor ts it),
      (Type_closure_wrapper mark_circle, color_visitor ts it),
      (Type_closure_wrapper mark_line,   color_visitor ts it),
      (Type_closure_wrapper mark_point,  color_visitor ts it),
      (Type_closure_wrapper mark_rect,   color_visitor ts it),
      (Type_closure_wrapper mark_rule,   color_visitor ts it),
      (Type_closure_wrapper mark_square, color_visitor ts it),
      (Type_closure_wrapper mark_tick,   color_visitor ts it),
      (Type_closure_wrapper mark_trail,  color_visitor ts it)]"

definition parse_color :: "('d, 'df) Chart point_it_fun" where
  "parse_color ts it chart =
     fst (visit_any (chart_mark chart) (map_of (color_visitors ts it)) chart)"

definition mark_mapping_table :: "(string \<times> ('d, 'df) Chart command_info) list" where
  "mark_mapping_table =
     [(''COLOR'', \<lparr>number_required_arguments = 1, parse_function = Point_it_fun parse_color\<rparr>)]"

definition mark_parser :: "('d, 'df) Chart parser" where
  "mark_parser = \<lparr>mapping_table = map_of mark_mapping_table, parse_init = mark_parse_init\<rparr>"

section \<open>xv\_sqlite\_parser and process\_xvega\_input\<close>

definition xv_parse_init :: "('d, 'df) Chart range_it_fun" where
  "xv_parse_init ts begin fin chart =
     Some (Inr (begin, chart\<lparr>chart_config_axis_grid := Some True\<rparr>))"

definition parse_width :: "('d, 'df) Chart point_it_fun" where
  "parse_width ts it chart =
     (case deref ts it of
        None \<Rightarrow> Inl Past_the_end
      | Some tok \<Rightarrow>
          (case stoi tok of
             Inl e \<Rightarrow> Inl e
           | Inr v \<Rightarrow> Inr (chart\<lparr>chart_width := Some v\<rparr>)))"

definition parse_height :: "('d, 'df) Chart point_it_fun" where
  "parse_height ts it chart =
     (case deref ts it of
        None \<Rightarrow> Inl Past_the_end
      | Some tok \<Rightarrow>
          (case stoi tok of
             Inl e \<Rightarrow> Inl e
           | Inr v \<Rightarrow> Inr (chart\<lparr>chart_height := Some v\<rparr>)))"

text \<open>
  \<^verbatim>\<open>parse_x_field\<close> stores a new \<^verbatim>\<open>xv::X\<close> in the chart and runs a \<^verbatim>\<open>field_parser\<close>
  on it in place: the chart holds what the parser wrote.
\<close>

definition parse_x_field :: "'d stod_fun \<Rightarrow> ('d, 'df) Chart range_it_fun" where
  "parse_x_field stod ts begin fin chart =
     (case parse_loop (field_parser stod) ts begin fin new_field_enc of
        None \<Rightarrow> None
      | Some (Inl e) \<Rightarrow> Some (Inl e)
      | Some (Inr (it, x_enc)) \<Rightarrow> Some (Inr (it, chart\<lparr>chart_encoding_x := Some x_enc\<rparr>)))"

definition parse_y_field :: "'d stod_fun \<Rightarrow> ('d, 'df) Chart range_it_fun" where
  "parse_y_field stod ts begin fin chart =
     (case parse_loop (field_parser stod) ts begin fin new_field_enc of
        None \<Rightarrow> None
      | Some (Inl e) \<Rightarrow> Some (Inl e)
      | Some (Inr (it, y_enc)) \<Rightarrow> Some (Inr (it, chart\<lparr>chart_encoding_y := Some y_enc\<rparr>)))"

definition parse_mark :: "('d, 'df) Chart range_it_fun" where
  "parse_mark ts input fin chart = parse_loop mark_parser ts input fin chart"

definition parse_grid :: "('d, 'df) Chart point_it_fun" where
  "parse_grid ts it chart =
     (case deref ts it of
        None \<Rightarrow> Inl Past_the_end
      | Some tok \<Rightarrow>
          (case simple_switch tok
                  [(''TRUE'',  \<lambda>c. c\<lparr>chart_config_axis_grid := Some True\<rparr>),
                   (''FALSE'', \<lambda>c. c\<lparr>chart_config_axis_grid := Some False\<rparr>)] chart of
             (True, chart') \<Rightarrow> Inr chart'
           | (False, chart') \<Rightarrow> Inl (Runtime_error ''Missing or invalid GRID type'')))"

definition parse_title :: "('d, 'df) Chart point_it_fun" where
  "parse_title ts it chart =
     (case deref ts it of
        None \<Rightarrow> Inl Past_the_end
      | Some tok \<Rightarrow> Inr chart)"

definition xv_mapping_table :: "'d stod_fun \<Rightarrow> (string \<times> ('d, 'df) Chart command_info) list" where
  "xv_mapping_table stod =
     [(''WIDTH'',   \<lparr>number_required_arguments = 1, parse_function = Point_it_fun parse_width\<rparr>),
      (''HEIGHT'',  \<lparr>number_required_arguments = 1, parse_function = Point_it_fun parse_height\<rparr>),
      (''X_FIELD'', \<lparr>number_required_arguments = 1, parse_function = Range_it_fun (parse_x_field stod)\<rparr>),
      (''Y_FIELD'', \<lparr>number_required_arguments = 1, parse_function = Range_it_fun (parse_y_field stod)\<rparr>),
      (''MARK'',    \<lparr>number_required_arguments = 1, parse_function = Range_it_fun parse_mark\<rparr>),
      (''GRID'',    \<lparr>number_required_arguments = 1, parse_function = Point_it_fun parse_grid\<rparr>),
      (''TITLE'',   \<lparr>number_required_arguments = 1, parse_function = Point_it_fun parse_title\<rparr>)]"

definition xv_sqlite_parser :: "'d stod_fun \<Rightarrow> ('d, 'df) Chart parser" where
  "xv_sqlite_parser stod =
     \<lparr>mapping_table = map_of (xv_mapping_table stod), parse_init = xv_parse_init\<rparr>"

text \<open>
  The result is the chart; its rendering as JSON (\<^verbatim>\<open>xv::mime_bundle_repr\<close>) belongs
  to the xvega library.
\<close>

definition process_xvega_input ::
  "'d stod_fun \<Rightarrow> string list \<Rightarrow> 'df \<Rightarrow> ('d, 'df) Chart result" where
  "process_xvega_input stod tokenized_input xv_sqlite_df =
     (case parse_loop (xv_sqlite_parser stod) tokenized_input 0 (length tokenized_input)
             (new_Chart\<lparr>chart_data := Some xv_sqlite_df\<rparr>) of
        None \<Rightarrow> None
      | Some (Inl e) \<Rightarrow> Some (Inl e)
      | Some (Inr (last_parsed, chart)) \<Rightarrow>
          if last_parsed \<noteq> length tokenized_input
          then Some (Inl (Runtime_error ''This is not a valid command for SQLite XVega.''))
          else Some (Inr chart))"

text \<open>The cursor of an outcome, when the call returned one.\<close>

definition cursor_of :: "(nat \<times> 's) result \<Rightarrow> nat option" where
  "cursor_of r = (case r of Some (Inr (c, s)) \<Rightarrow> Some c | _ \<Rightarrow> None)"

section \<open>Properties of the engine\<close>

lemma deref_Some: "deref ts it = Some tok \<longleftrightarrow> it < length ts \<and> tok = ts ! it"
  by (auto simp: deref_def)

lemma deref_None: "deref ts it = None \<longleftrightarrow> length ts \<le> it"
  by (auto simp: deref_def)

lemma parse_step_in_range:
  assumes "parse_step p ts it fin s = Some (Inr (c, s'))"
  shows "it < length ts"
  using assms by (auto simp: parse_step_def deref_def split: if_splits)

lemma parse_step_cursor:
  assumes range: "\<And>k cmd f b s c s'. mapping_table p k = Some cmd \<Longrightarrow>
              parse_function cmd = Range_it_fun f \<Longrightarrow> f ts b fin s = Some (Inr (c, s')) \<Longrightarrow> b \<le> c"
    and step: "parse_step p ts it fin s = Some (Inr (c, s'))"
  shows "it \<le> c"
proof (cases "deref ts it")
  case None
  with step show ?thesis by (simp add: parse_step_def)
next
  case (Some tok)
  show ?thesis
  proof (cases "mapping_table p (to_upper tok)")
    case None
    with Some step show ?thesis by (simp add: parse_step_def)
  next
    case cmd: (Some cmd_info)
    show ?thesis
    proof (cases "parse_function cmd_info")
      case (Point_it_fun f)
      with Some cmd step show ?thesis
        by (auto simp: parse_step_def split: if_splits sum.splits)
    next
      case (Range_it_fun f)
      with Some cmd step have "f ts (it + 1) fin s = Some (Inr (c, s'))"
        by (auto simp: parse_step_def split: if_splits)
      from range [OF cmd Range_it_fun this] show ?thesis by simp
    qed
  qed
qed

lemma parse_step_returns:
  assumes range: "\<And>k cmd f b s. mapping_table p k = Some cmd \<Longrightarrow>
              parse_function cmd = Range_it_fun f \<Longrightarrow> f ts b fin s \<noteq> None"
  shows "parse_step p ts it fin s \<noteq> None"
proof (cases "deref ts it")
  case None
  then show ?thesis by (simp add: parse_step_def)
next
  case (Some tok)
  show ?thesis
  proof (cases "mapping_table p (to_upper tok)")
    case None
    with Some show ?thesis by (simp add: parse_step_def)
  next
    case cmd: (Some cmd_info)
    show ?thesis
    proof (cases "parse_function cmd_info")
      case (Point_it_fun f)
      with Some cmd show ?thesis
        by (auto simp: parse_step_def split: if_splits sum.splits)
    next
      case (Range_it_fun f)
      with Some cmd range [OF cmd Range_it_fun] show ?thesis
        by (auto simp: parse_step_def split: if_splits)
    qed
  qed
qed

lemma parse_loop_from_cursor:
  assumes step: "\<And>it s c s'. parse_step p ts it fin s = Some (Inr (c, s')) \<Longrightarrow> it \<le> c"
    and loop: "parse_loop_from p ts it fin s = Some (Inr (c, s'))"
  shows "it \<le> c"
  using loop
proof (induction "length ts - it" arbitrary: it s rule: less_induct)
  case less
  show ?case
  proof (cases "it = fin")
    case True
    with less.prems show ?thesis by (simp add: parse_loop_from.simps)
  next
    case False
    with less.prems obtain nxt s1 where st: "parse_step p ts it fin s = Some (Inr (nxt, s1))"
      and rest: "if nxt = it then c = it else parse_loop_from p ts nxt fin s1 = Some (Inr (c, s'))"
      by (subst (asm) parse_loop_from.simps) (auto split: option.splits sum.splits if_splits)
    from step [OF st] have le: "it \<le> nxt" .
    show ?thesis
    proof (cases "nxt = it")
      case True
      with rest show ?thesis by simp
    next
      case ne: False
      with rest have l: "parse_loop_from p ts nxt fin s1 = Some (Inr (c, s'))" by simp
      from parse_step_in_range [OF st] le ne have "length ts - nxt < length ts - it" by simp
      from less.hyps [OF this l] le show ?thesis by simp
    qed
  qed
qed

lemma parse_loop_from_returns:
  assumes mono: "\<And>it s c s'. parse_step p ts it fin s = Some (Inr (c, s')) \<Longrightarrow> it \<le> c"
    and tot: "\<And>it s. parse_step p ts it fin s \<noteq> None"
  shows "parse_loop_from p ts it fin s \<noteq> None"
proof (induction "length ts - it" arbitrary: it s rule: less_induct)
  case less
  show ?case
  proof (cases "it = fin")
    case True
    then show ?thesis by (simp add: parse_loop_from.simps)
  next
    case False
    from tot [of it s] obtain r where r: "parse_step p ts it fin s = Some r" by auto
    show ?thesis
    proof (cases r)
      case (Inl e)
      with r False show ?thesis by (simp add: parse_loop_from.simps)
    next
      case (Inr cs)
      obtain nxt s1 where cs: "cs = (nxt, s1)" by (cases cs)
      with r Inr have st: "parse_step p ts it fin s = Some (Inr (nxt, s1))" by simp
      show ?thesis
      proof (cases "nxt = it")
        case True
        with st False show ?thesis by (simp add: parse_loop_from.simps)
      next
        case ne: False
        from mono [OF st] ne have "it < nxt" by simp
        moreover from parse_step_in_range [OF st] have "it < length ts" .
        ultimately have "length ts - nxt < length ts - it" by simp
        from less [OF this] have "parse_loop_from p ts nxt fin s1 \<noteq> None" .
        with st False ne show ?thesis
          by (subst parse_loop_from.simps) simp
      qed
    qed
  qed
qed

lemma parse_loop_cursor:
  assumes init: "\<And>s c s'. parse_init p ts b fin s = Some (Inr (c, s')) \<Longrightarrow> b \<le> c"
    and step: "\<And>it s c s'. parse_step p ts it fin s = Some (Inr (c, s')) \<Longrightarrow> it \<le> c"
    and loop: "parse_loop p ts b fin s = Some (Inr (c, s'))"
  shows "b \<le> c"
proof -
  from loop obtain it s0 where i: "parse_init p ts b fin s = Some (Inr (it, s0))"
    and l: "parse_loop_from p ts it fin s0 = Some (Inr (c, s'))"
    by (auto simp: parse_loop_def split: option.splits sum.splits)
  have "it \<le> c" by (rule parse_loop_from_cursor [OF _ l]) (rule step)
  with init [OF i] show ?thesis by simp
qed

lemma parse_loop_returns:
  assumes init: "parse_init p ts b fin s \<noteq> None"
    and mono: "\<And>it s c s'. parse_step p ts it fin s = Some (Inr (c, s')) \<Longrightarrow> it \<le> c"
    and tot: "\<And>it s. parse_step p ts it fin s \<noteq> None"
  shows "parse_loop p ts b fin s \<noteq> None"
proof -
  have "parse_loop_from p ts it fin s0 \<noteq> None" for it s0
    by (rule parse_loop_from_returns) (rule mono, assumption, rule tot)
  with init show ?thesis
    by (auto simp: parse_loop_def split: option.splits sum.splits)
qed

subsection \<open>The loop and its specification\<close>

lemma loop_spec_parse_loop_from:
  assumes "loop_spec p ts fin it s r"
  shows "parse_loop_from p ts it fin s = Some r"
  using assms
proof (induction rule: loop_spec.induct)
  case (reached_end s)
  show ?case by (simp add: parse_loop_from.simps)
next
  case (no_progress it s s')
  then show ?case by (simp add: parse_loop_from.simps)
next
  case (failed it s e)
  then show ?case by (simp add: parse_loop_from.simps)
next
  case (progress it s "next" s' r)
  then show ?case by (subst parse_loop_from.simps) simp
qed

lemma parse_loop_from_loop_spec:
  assumes "parse_loop_from p ts it fin s = Some r"
  shows "loop_spec p ts fin it s r"
proof (rule parse_loop_from.raw_induct
    [where P = "\<lambda>p ts it fin s r. loop_spec p ts fin it s r", OF _ assms])
  fix rec :: "'a parser \<Rightarrow> string list \<Rightarrow> nat \<Rightarrow> nat \<Rightarrow> 'a \<Rightarrow> (error + nat \<times> 'a) option"
    and p ts it fin s r
  assume IH: "\<And>p ts it fin s r. rec p ts it fin s = Some r \<Longrightarrow> loop_spec p ts fin it s r"
    and body: "(if it = fin then Some (Inr (it, s))
      else case parse_step p ts it fin s of None \<Rightarrow> None
           | Some (Inl e) \<Rightarrow> Some (Inl e)
           | Some (Inr (next, s')) \<Rightarrow>
               if next = it then Some (Inr (it, s')) else rec p ts next fin s') = Some r"
  show "loop_spec p ts fin it s r"
  proof (cases "it = fin")
    case True
    with body show ?thesis by (auto intro: loop_spec.reached_end)
  next
    case False
    show ?thesis
    proof (cases "parse_step p ts it fin s")
      case None
      with body False show ?thesis by simp
    next
      case (Some res)
      show ?thesis
      proof (cases res)
        case (Inl e)
        with body False Some have "r = Inl e" by simp
        with False Some Inl show ?thesis by (simp add: loop_spec.failed)
      next
        case (Inr cs)
        obtain nxt s1 where cs: "cs = (nxt, s1)" by (cases cs)
        show ?thesis
        proof (cases "nxt = it")
          case True
          with body False Some Inr cs have "r = Inr (it, s1)" by simp
          with False Some Inr cs True show ?thesis by (simp add: loop_spec.no_progress)
        next
          case ne: False
          with body False Some Inr cs have "rec p ts nxt fin s1 = Some r" by simp
          from IH [OF this] have "loop_spec p ts fin nxt s1 r" .
          with False Some Inr cs ne show ?thesis
            by (auto intro: loop_spec.progress [of it fin p ts s nxt s1 r])
        qed
      qed
    qed
  qed
qed

lemma loop_spec_final:
  assumes "loop_spec p ts fin it s r" and "r = Inr (c, s')"
  shows "c = fin \<or> (\<exists>s0. parse_step p ts c fin s0 = Some (Inr (c, s')))"
  using assms by (induction rule: loop_spec.induct) auto

subsection \<open>The cursor of the four parsers\<close>

lemma simple_switch_cases:
  obtains (matched) handler where "map_of handlers (to_upper token) = Some handler"
      "simple_switch token handlers s = (True, handler s)"
  | (unmatched) "map_of handlers (to_upper token) = None"
      "simple_switch token handlers s = (False, s)"
  by (cases "map_of handlers (to_upper token)") (auto simp: simple_switch_def)

lemma bin_parser_point:
  assumes "mapping_table (bin_parser stod) k = Some cmd"
  shows "parse_function cmd \<noteq> Range_it_fun f"
  using assms by (auto simp: bin_parser_def bin_mapping_table_def split: if_splits)

lemma bin_step_cursor:
  assumes "parse_step (bin_parser stod) ts it fin s = Some (Inr (c, s'))"
  shows "it \<le> c"
  by (rule parse_step_cursor [OF _ assms]) (simp add: bin_parser_point)

lemma bin_step_returns: "parse_step (bin_parser stod) ts it fin s \<noteq> None"
  by (rule parse_step_returns) (simp add: bin_parser_point)

lemma bin_loop_cursor:
  assumes "parse_loop (bin_parser stod) ts b fin s = Some (Inr (c, s'))"
  shows "b \<le> c"
proof (rule parse_loop_cursor [OF _ _ assms])
  fix s0 c0 s1
  assume "parse_init (bin_parser stod) ts b fin s0 = Some (Inr (c0, s1))"
  then show "b \<le> c0" by (simp add: bin_parser_def parse_init_default_def)
next
  fix it s0 c0 s1
  assume "parse_step (bin_parser stod) ts it fin s0 = Some (Inr (c0, s1))"
  then show "it \<le> c0" by (rule bin_step_cursor)
qed

lemma bin_loop_returns: "parse_loop (bin_parser stod) ts b fin s \<noteq> None"
proof (rule parse_loop_returns)
  show "parse_init (bin_parser stod) ts b fin s \<noteq> None"
    by (simp add: bin_parser_def parse_init_default_def)
qed (rule bin_step_cursor, assumption, rule bin_step_returns)

lemma parse_field_bin_cursor:
  assumes "parse_field_bin stod ts b fin s = Some (Inr (c, s'))"
  shows "b \<le> c"
proof (cases "deref ts b")
  case None
  with assms show ?thesis by (simp add: parse_field_bin_def)
next
  case (Some tok)
  let ?sw = "simple_switch tok
      [(''TRUE'', \<lambda>x. x\<lparr>enc_bin := Some (Bin_flag True)\<rparr>),
       (''FALSE'', \<lambda>x. x\<lparr>enc_bin := Some (Bin_flag False)\<rparr>)] s"
  show ?thesis
  proof (cases "fst ?sw")
    case True
    with assms Some show ?thesis
      by (auto simp: parse_field_bin_def split: prod.splits bool.splits)
  next
    case False
    with assms Some obtain it parser where
      "parse_loop (bin_parser stod) ts b fin \<lparr>bin = new_Bin, num_parsed_attrs = 0\<rparr>
         = Some (Inr (it, parser))" and "c = it"
      by (auto simp: parse_field_bin_def split: prod.splits bool.splits option.splits sum.splits if_splits)
    with bin_loop_cursor show ?thesis by blast
  qed
qed

lemma parse_field_bin_returns: "parse_field_bin stod ts b fin s \<noteq> None"
  using bin_loop_returns [of stod ts b fin "\<lparr>bin = new_Bin, num_parsed_attrs = 0\<rparr>"]
  by (auto simp: parse_field_bin_def split: prod.splits bool.splits option.splits sum.splits)

lemma parse_field_aggregate_cursor:
  assumes "parse_field_aggregate ts b fin s = Some (Inr (c, s'))"
  shows "b \<le> c"
  using assms
  by (auto simp: parse_field_aggregate_def split: prod.splits bool.splits option.splits)

lemma parse_field_aggregate_returns: "parse_field_aggregate ts b fin s \<noteq> None"
  by (auto simp: parse_field_aggregate_def split: prod.splits bool.splits option.splits)

lemma field_parser_range:
  assumes "mapping_table (field_parser stod) k = Some cmd"
    and "parse_function cmd = Range_it_fun f"
  shows "f = parse_field_bin stod \<or> f = parse_field_aggregate"
  using assms by (auto simp: field_parser_def field_mapping_table_def split: if_splits)

lemma field_step_cursor:
  assumes "parse_step (field_parser stod) ts it fin s = Some (Inr (c, s'))"
  shows "it \<le> c"
proof (rule parse_step_cursor [OF _ assms])
  fix k cmd f b s0 c0 s1
  assume tab: "mapping_table (field_parser stod) k = Some cmd"
    and fn: "parse_function cmd = Range_it_fun f"
    and run: "f ts b fin s0 = Some (Inr (c0, s1))"
  from tab fn have "f = parse_field_bin stod \<or> f = parse_field_aggregate"
    by (rule field_parser_range)
  with run show "b \<le> c0"
    by (auto dest: parse_field_bin_cursor parse_field_aggregate_cursor)
qed

lemma field_step_returns: "parse_step (field_parser stod) ts it fin s \<noteq> None"
proof (rule parse_step_returns)
  fix k cmd f b s0
  assume "mapping_table (field_parser stod) k = Some cmd"
    and "parse_function cmd = Range_it_fun f"
  then have "f = parse_field_bin stod \<or> f = parse_field_aggregate"
    by (rule field_parser_range)
  then show "f ts b fin s0 \<noteq> None"
    using parse_field_bin_returns [of stod ts b fin s0]
      parse_field_aggregate_returns [of ts b fin s0]
    by auto
qed

lemma field_loop_cursor:
  assumes "parse_loop (field_parser stod) ts b fin s = Some (Inr (c, s'))"
  shows "b \<le> c"
proof (rule parse_loop_cursor [OF _ _ assms])
  fix s0 c0 s1
  assume "parse_init (field_parser stod) ts b fin s0 = Some (Inr (c0, s1))"
  then show "b \<le> c0"
    by (auto simp: field_parser_def field_parse_init_def split: option.splits)
next
  fix it s0 c0 s1
  assume "parse_step (field_parser stod) ts it fin s0 = Some (Inr (c0, s1))"
  then show "it \<le> c0" by (rule field_step_cursor)
qed

lemma field_loop_returns: "parse_loop (field_parser stod) ts b fin s \<noteq> None"
proof (rule parse_loop_returns)
  show "parse_init (field_parser stod) ts b fin s \<noteq> None"
    by (simp add: field_parser_def field_parse_init_def split: option.splits)
qed (rule field_step_cursor, assumption, rule field_step_returns)

lemma mark_parser_point:
  assumes "mapping_table mark_parser k = Some cmd"
  shows "parse_function cmd \<noteq> Range_it_fun f"
  using assms by (auto simp: mark_parser_def mark_mapping_table_def split: if_splits)

lemma mark_step_cursor:
  assumes "parse_step mark_parser ts it fin s = Some (Inr (c, s'))"
  shows "it \<le> c"
  by (rule parse_step_cursor [OF _ assms]) (simp add: mark_parser_point)

lemma mark_step_returns: "parse_step mark_parser ts it fin s \<noteq> None"
  by (rule parse_step_returns) (simp add: mark_parser_point)

lemma mark_loop_cursor:
  assumes "parse_loop mark_parser ts b fin s = Some (Inr (c, s'))"
  shows "b \<le> c"
proof (rule parse_loop_cursor [OF _ _ assms])
  fix s0 c0 s1
  assume "parse_init mark_parser ts b fin s0 = Some (Inr (c0, s1))"
  then show "b \<le> c0"
    by (auto simp: mark_parser_def mark_parse_init_def split: option.splits prod.splits bool.splits)
next
  fix it s0 c0 s1
  assume "parse_step mark_parser ts it fin s0 = Some (Inr (c0, s1))"
  then show "it \<le> c0" by (rule mark_step_cursor)
qed

lemma mark_loop_returns: "parse_loop mark_parser ts b fin s \<noteq> None"
proof (rule parse_loop_returns)
  show "parse_init mark_parser ts b fin s \<noteq> None"
    by (simp add: mark_parser_def mark_parse_init_def split: option.splits prod.splits bool.splits)
qed (rule mark_step_cursor, assumption, rule mark_step_returns)

lemma parse_x_field_cursor:
  assumes "parse_x_field stod ts b fin s = Some (Inr (c, s'))"
  shows "b \<le> c"
  using assms
  by (auto simp: parse_x_field_def split: option.splits sum.splits dest: field_loop_cursor)

lemma parse_y_field_cursor:
  assumes "parse_y_field stod ts b fin s = Some (Inr (c, s'))"
  shows "b \<le> c"
  using assms
  by (auto simp: parse_y_field_def split: option.splits sum.splits dest: field_loop_cursor)

lemma parse_x_field_returns: "parse_x_field stod ts b fin s \<noteq> None"
  using field_loop_returns [of stod ts b fin new_field_enc]
  by (auto simp: parse_x_field_def split: option.splits sum.splits)

lemma parse_y_field_returns: "parse_y_field stod ts b fin s \<noteq> None"
  using field_loop_returns [of stod ts b fin new_field_enc]
  by (auto simp: parse_y_field_def split: option.splits sum.splits)

lemma xv_parser_range:
  assumes "mapping_table (xv_sqlite_parser stod) k = Some cmd"
    and "parse_function cmd = Range_it_fun f"
  shows "f = parse_x_field stod \<or> f = parse_y_field stod \<or> f = parse_mark"
  using assms by (auto simp: xv_sqlite_parser_def xv_mapping_table_def split: if_splits)

lemma xv_step_cursor:
  assumes "parse_step (xv_sqlite_parser stod) ts it fin s = Some (Inr (c, s'))"
  shows "it \<le> c"
proof (rule parse_step_cursor [OF _ assms])
  fix k cmd f b s0 c0 s1
  assume tab: "mapping_table (xv_sqlite_parser stod) k = Some cmd"
    and fn: "parse_function cmd = Range_it_fun f"
    and run: "f ts b fin s0 = Some (Inr (c0, s1))"
  from tab fn have "f = parse_x_field stod \<or> f = parse_y_field stod \<or> f = parse_mark"
    by (rule xv_parser_range)
  with run show "b \<le> c0"
    by (auto simp: parse_mark_def
        dest: parse_x_field_cursor parse_y_field_cursor mark_loop_cursor)
qed

lemma xv_step_returns: "parse_step (xv_sqlite_parser stod) ts it fin s \<noteq> None"
proof (rule parse_step_returns)
  fix k cmd f b s0
  assume "mapping_table (xv_sqlite_parser stod) k = Some cmd"
    and "parse_function cmd = Range_it_fun f"
  then have "f = parse_x_field stod \<or> f = parse_y_field stod \<or> f = parse_mark"
    by (rule xv_parser_range)
  then show "f ts b fin s0 \<noteq> None"
    using parse_x_field_returns [of stod ts b fin s0] parse_y_field_returns [of stod ts b fin s0]
      mark_loop_returns [of ts b fin s0]
    by (auto simp: parse_mark_def)
qed

lemma xv_loop_cursor:
  assumes "parse_loop (xv_sqlite_parser stod) ts b fin s = Some (Inr (c, s'))"
  shows "b \<le> c"
proof (rule parse_loop_cursor [OF _ _ assms])
  fix s0 c0 s1
  assume "parse_init (xv_sqlite_parser stod) ts b fin s0 = Some (Inr (c0, s1))"
  then show "b \<le> c0"
    by (auto simp: xv_sqlite_parser_def xv_parse_init_def)
next
  fix it s0 c0 s1
  assume "parse_step (xv_sqlite_parser stod) ts it fin s0 = Some (Inr (c0, s1))"
  then show "it \<le> c0" by (rule xv_step_cursor)
qed

lemma xv_loop_returns: "parse_loop (xv_sqlite_parser stod) ts b fin s \<noteq> None"
proof (rule parse_loop_returns)
  show "parse_init (xv_sqlite_parser stod) ts b fin s \<noteq> None"
    by (simp add: xv_sqlite_parser_def xv_parse_init_def)
qed (rule xv_step_cursor, assumption, rule xv_step_returns)

lemma process_xvega_input_returns: "process_xvega_input stod ts df \<noteq> None"
  using xv_loop_returns [of stod ts 0 "length ts" "new_Chart\<lparr>chart_data := Some df\<rparr>"]
  by (auto simp: process_xvega_input_def split: option.splits sum.splits)

subsection \<open>Evaluation and stored values\<close>

lemma cursor_of_Some: "cursor_of r = Some c \<longleftrightarrow> (\<exists>s. r = Some (Inr (c, s)))"
  by (auto simp: cursor_of_def split: option.splits sum.splits)

lemmas run_simps =
  parse_loop_def parse_loop_from.simps parse_step_def deref_def to_upper_def toupper_def
  simple_switch_def

lemma parse_step_arity_check:
  assumes "deref ts it = Some tok" and "mapping_table p (to_upper tok) = Some cmd"
  shows "int fin - int it < number_required_arguments cmd \<Longrightarrow>
           parse_step p ts it fin s = Some (Inl (Runtime_error ''Arguments missing.''))"
    and "number_required_arguments cmd \<le> int fin - int it - 1 \<Longrightarrow>
           parse_step p ts it fin s =
             (case parse_function cmd of
                Point_it_fun f \<Rightarrow>
                  (case f ts (it + 1) s of
                     Inl e \<Rightarrow> Some (Inl e)
                   | Inr s' \<Rightarrow>
                       if it + 1 < length ts then Some (Inr (it + 1 + 1, s'))
                       else Some (Inl Past_the_end))
              | Range_it_fun f \<Rightarrow> f ts (it + 1) fin s)"
  using assms by (simp_all add: parse_step_def)

lemma parse_color_stores:
  assumes "deref ts it = Some tok" and "chart_mark chart = Any_mark k col"
  shows "parse_color ts it chart = Inr (chart\<lparr>chart_mark := Any_mark k (Some (to_lower tok))\<rparr>)"
  using assms
  by (cases k) (simp_all add: parse_color_def visit_any_def color_visitors_def color_visitor_def)

lemma toupper_idem: "toupper (toupper c) = toupper c"
  by (simp add: toupper_def)

lemma to_upper_idem: "to_upper (to_upper s) = to_upper s"
  by (simp add: to_upper_def toupper_idem)

subsection \<open>Enumerations\<close>

lemma map_of_distinct_values:
  assumes "distinct (map snd xs)" and "map_of xs k = Some v" and "map_of xs k' = Some v"
  shows "k = k'"
  using assms
proof (induction xs)
  case Nil
  then show ?case by simp
next
  case (Cons x xs)
  obtain a b where x: "x = (a, b)" by (cases x)
  from Cons.prems(1) x have notin: "b \<notin> snd ` set xs" and d: "distinct (map snd xs)" by auto
  have in_tail: "map_of xs j = Some w \<Longrightarrow> w \<in> snd ` set xs" for j w
    by (force dest: map_of_SomeD)
  show ?case
  proof (cases "k = a")
    case True
    with Cons.prems(2) x have v: "v = b" by simp
    show ?thesis
    proof (cases "k' = a")
      case True
      with \<open>k = a\<close> show ?thesis by simp
    next
      case False
      with Cons.prems(3) x have "map_of xs k' = Some v" by simp
      from in_tail [OF this] v notin show ?thesis by simp
    qed
  next
    case False
    with Cons.prems(2) x have k: "map_of xs k = Some v" by simp
    show ?thesis
    proof (cases "k' = a")
      case True
      with Cons.prems(3) x have "v = b" by simp
      with in_tail [OF k] notin show ?thesis by simp
    next
      case False
      with Cons.prems(3) x have "map_of xs k' = Some v" by simp
      from Cons.IH [OF d k this] show ?thesis .
    qed
  qed
qed

lemma switch_injective:
  assumes d: "distinct (map (\<lambda>(k, h). get (h s)) handlers)"
    and a: "simple_switch t handlers s = (True, s1)"
    and b: "simple_switch t' handlers s = (True, s2)"
    and ne: "to_upper t \<noteq> to_upper t'"
  shows "get s1 \<noteq> get s2"
proof
  assume eq: "get s1 = get s2"
  let ?xs = "map (\<lambda>(k, h). (k, get (h s))) handlers"
  have m: "map_of ?xs = map_option (\<lambda>h. get (h s)) \<circ> map_of handlers"
    by (rule map_of_map)
  from a obtain h1 where h1: "map_of handlers (to_upper t) = Some h1" "s1 = h1 s"
    by (auto simp: simple_switch_def split: option.splits)
  from b obtain h2 where h2: "map_of handlers (to_upper t') = Some h2" "s2 = h2 s"
    by (auto simp: simple_switch_def split: option.splits)
  have "map snd ?xs = map (\<lambda>(k, h). get (h s)) handlers"
    by (induction handlers) auto
  then have "distinct (map snd ?xs)" using d by (simp only:)
  moreover from h1 m have "map_of ?xs (to_upper t) = Some (get s1)" by simp
  moreover from h2 m eq have "map_of ?xs (to_upper t') = Some (get s1)" by simp
  ultimately have "to_upper t = to_upper t'" by (rule map_of_distinct_values)
  with ne show False by simp
qed

lemma aggregate_values_distinct:
  "distinct (map (\<lambda>(k, h). enc_aggregate (h s)) field_aggregate_cases)"
  by (simp add: field_aggregate_cases_def)

lemma time_unit_values_distinct:
  "distinct (map (\<lambda>(k, h). enc_timeUnit (h s)) field_time_unit_cases)"
  by (simp add: field_time_unit_cases_def)

lemma mark_values_distinct:
  "distinct (map (\<lambda>(k, h). chart_mark (h s)) mark_cases)"
  by (simp add: mark_cases_def)

section \<open>The claims\<close>

text \<open>
  Claim C1 (the code departs from it). The table of the top-level parser declares one
  required argument for \<^verbatim>\<open>WIDTH\<close>. On the single token \<^verbatim>\<open>WIDTH\<close> no token follows the
  keyword, yet \<open>parse_step\<close> raises no \<^verbatim>\<open>Arguments missing.\<close> error: its check compares
  the distance from the keyword itself to \<open>end\<close>, which is 1, with the minimum, and
  then calls the parse function, which reads the token at \<open>end\<close>.
\<close>

theorem parse_step_arity_off_by_one:
  "parse_step (xv_sqlite_parser stod) [''WIDTH''] 0 1 chart = Some (Inl Past_the_end)
   \<and> parse_step (xv_sqlite_parser stod) [''WIDTH''] 0 1 chart
        \<noteq> Some (Inl (Runtime_error ''Arguments missing.''))
   \<and> process_xvega_input stod [''WIDTH''] df = Some (Inl Past_the_end)"
  by (simp add: process_xvega_input_def run_simps xv_sqlite_parser_def xv_mapping_table_def
      xv_parse_init_def parse_width_def)

text \<open>
  Claim C2 (the code departs from it). On the tokens \<^verbatim>\<open>X_FIELD price BIN\<close> the parse
  function of \<^verbatim>\<open>BIN\<close> is called with \<open>begin = end\<close> and reads the token at \<open>end\<close>
  before it can raise \<^verbatim>\<open>Missing or invalid BIN type\<close>. That error is raised when a
  token follows \<^verbatim>\<open>BIN\<close> that is no toggle and starts no binning attribute.
\<close>

theorem scenario_D_reads_past_the_end:
  "process_xvega_input stod [''X_FIELD'', ''price'', ''BIN''] df = Some (Inl Past_the_end)
   \<and> parse_field_bin stod [''X_FIELD'', ''price'', ''BIN''] 3 3 x = Some (Inl Past_the_end)
   \<and> process_xvega_input stod [''X_FIELD'', ''price'', ''BIN'', ''FOO''] df
        = Some (Inl (Runtime_error ''Missing or invalid BIN type''))"
  by (simp add: process_xvega_input_def run_simps xv_sqlite_parser_def xv_mapping_table_def
      xv_parse_init_def parse_x_field_def field_parser_def field_mapping_table_def
      field_parse_init_def parse_field_bin_def bin_parser_def bin_mapping_table_def
      parse_init_default_def)

text \<open>
  Claim C3, as amended. The field identifier that the init step of \<open>field_parser\<close>
  stores is the token exactly as it was given, for every token. The colour that
  \<open>parse_color\<close> stores is the token converted to lower case, for every token and
  every kind of mark; it is the token itself only when the token has no upper-case
  letter. Both hold for the parse functions and for the whole operation.
\<close>

theorem stored_values_of_tokens:
  "(deref ts it = Some tok \<longrightarrow>
      field_parse_init ts it fin x
        = Some (Inr (it + 1, x\<lparr>enc_field := Some tok, enc_type := Some ''quantitative''\<rparr>)))
   \<and> (deref ts' it' = Some tok' \<longrightarrow> chart_mark chart = Any_mark k col \<longrightarrow>
      parse_color ts' it' chart = Inr (chart\<lparr>chart_mark := Any_mark k (Some (to_lower tok'))\<rparr>))
   \<and> process_xvega_input stod [''X_FIELD'', name] df
        = Some (Inr (new_Chart\<lparr>chart_data := Some df, chart_config_axis_grid := Some True,
            chart_encoding_x := Some (new_field_enc\<lparr>enc_field := Some name,
              enc_type := Some ''quantitative''\<rparr>)\<rparr>))
   \<and> process_xvega_input stod [''MARK'', ''BAR'', ''COLOR'', colour] df
        = Some (Inr (new_Chart\<lparr>chart_data := Some df, chart_config_axis_grid := Some True,
            chart_mark := Any_mark mark_bar (Some (to_lower colour))\<rparr>))"
proof (intro conjI impI)
  assume "deref ts it = Some tok"
  then show "field_parse_init ts it fin x
        = Some (Inr (it + 1, x\<lparr>enc_field := Some tok, enc_type := Some ''quantitative''\<rparr>))"
    by (simp add: field_parse_init_def)
next
  assume "deref ts' it' = Some tok'" and "chart_mark chart = Any_mark k col"
  then show "parse_color ts' it' chart
      = Inr (chart\<lparr>chart_mark := Any_mark k (Some (to_lower tok'))\<rparr>)"
    by (rule parse_color_stores)
next
  show "process_xvega_input stod [''X_FIELD'', name] df
        = Some (Inr (new_Chart\<lparr>chart_data := Some df, chart_config_axis_grid := Some True,
            chart_encoding_x := Some (new_field_enc\<lparr>enc_field := Some name,
              enc_type := Some ''quantitative''\<rparr>)\<rparr>))"
    by (simp add: process_xvega_input_def run_simps xv_sqlite_parser_def xv_mapping_table_def
        xv_parse_init_def parse_x_field_def field_parser_def field_mapping_table_def
        field_parse_init_def new_Chart_def)
next
  show "process_xvega_input stod [''MARK'', ''BAR'', ''COLOR'', colour] df
        = Some (Inr (new_Chart\<lparr>chart_data := Some df, chart_config_axis_grid := Some True,
            chart_mark := Any_mark mark_bar (Some (to_lower colour))\<rparr>))"
    by (simp add: process_xvega_input_def run_simps xv_sqlite_parser_def xv_mapping_table_def
        xv_parse_init_def parse_mark_def mark_parser_def mark_mapping_table_def
        mark_parse_init_def mark_cases_def parse_color_def visit_any_def color_visitors_def
        color_visitor_def new_Chart_def)
qed

theorem stored_values_of_tokens_witness:
  "field_parse_init [''X_FIELD'', ''Price''] 1 2 (new_field_enc :: unit field_enc)
     = Some (Inr (2, new_field_enc\<lparr>enc_field := Some ''Price'', enc_type := Some ''quantitative''\<rparr>))
   \<and> parse_color [''COLOR'', ''Red''] 1 ((new_Chart :: (unit, unit) Chart)\<lparr>chart_mark := Any_mark mark_tick None\<rparr>)
     = Inr (new_Chart\<lparr>chart_mark := Any_mark mark_tick (Some ''red'')\<rparr>)"
proof -
  note T = stored_values_of_tokens [where ts = "[''X_FIELD'', ''Price'']" and it = 1
      and tok = "''Price''" and fin = 2 and x = "new_field_enc :: unit field_enc"
      and ts' = "[''COLOR'', ''Red'']" and it' = 1 and tok' = "''Red''"
      and chart = "(new_Chart :: (unit, unit) Chart)\<lparr>chart_mark := Any_mark mark_tick None\<rparr>"
      and k = mark_tick and col = None]
  have a: "deref [''X_FIELD'', ''Price''] 1 = Some ''Price''" by (simp add: deref_def)
  have b: "deref [''COLOR'', ''Red''] 1 = Some ''Red''" by (simp add: deref_def)
  have c: "chart_mark ((new_Chart :: (unit, unit) Chart)\<lparr>chart_mark := Any_mark mark_tick None\<rparr>)
      = Any_mark mark_tick None" by simp
  have l: "to_lower ''Red'' = ''red''" by (simp add: to_lower_def tolower_def)
  from T [THEN conjunct1, rule_format, OF a]
    T [THEN conjunct2, THEN conjunct1, rule_format, OF b c] l
  show ?thesis by simp
qed

theorem colour_not_verbatim_counterexample:
  "parse_color [''COLOR'', ''RED''] 1
       ((new_Chart :: (unit, unit) Chart)\<lparr>chart_mark := Any_mark mark_bar None\<rparr>)
     = Inr (new_Chart\<lparr>chart_mark := Any_mark mark_bar (Some ''red'')\<rparr>)
   \<and> ''red'' \<noteq> ''RED''"
  by (simp add: parse_color_def visit_any_def color_visitors_def color_visitor_def deref_def
      to_lower_def tolower_def)

text \<open>
  Claim C4, as amended. For every token sequence, \<open>process_xvega_input\<close> succeeds with
  a chart exactly when the loop of the top-level parser returns the end of the
  sequence as its cursor, with that chart. When the loop returns any other cursor,
  tokens remain, and the operation fails once, with the runtime error whose message
  is the fixed text \<^verbatim>\<open>This is not a valid command for SQLite XVega.\<close>; the tokens
  \<^verbatim>\<open>WIDTH 400 FOO\<close> fail so. The error does not depend on the tokens: two token
  sequences that both leave tokens fail with the same error.
\<close>

theorem process_xvega_input_whole_sequence:
  "(process_xvega_input stod ts df = Some (Inr chart) \<longleftrightarrow>
        parse_loop (xv_sqlite_parser stod) ts 0 (length ts) (new_Chart\<lparr>chart_data := Some df\<rparr>)
          = Some (Inr (length ts, chart)))
   \<and> (parse_loop (xv_sqlite_parser stod) ts 0 (length ts) (new_Chart\<lparr>chart_data := Some df\<rparr>)
          = Some (Inr (c, chart')) \<longrightarrow> c \<noteq> length ts \<longrightarrow>
        process_xvega_input stod ts df
          = Some (Inl (Runtime_error ''This is not a valid command for SQLite XVega.'')))
   \<and> (parse_loop (xv_sqlite_parser stod) ts 0 (length ts) (new_Chart\<lparr>chart_data := Some df\<rparr>)
          = Some (Inr (c, chart')) \<longrightarrow> c \<noteq> length ts \<longrightarrow>
        parse_loop (xv_sqlite_parser stod) us 0 (length us) (new_Chart\<lparr>chart_data := Some df\<rparr>)
          = Some (Inr (d, chart'')) \<longrightarrow> d \<noteq> length us \<longrightarrow>
        process_xvega_input stod ts df = process_xvega_input stod us df)
   \<and> process_xvega_input stod [''WIDTH'', ''400'', ''FOO''] df
        = Some (Inl (Runtime_error ''This is not a valid command for SQLite XVega.''))"
proof (intro conjI impI)
  show "process_xvega_input stod ts df = Some (Inr chart) \<longleftrightarrow>
        parse_loop (xv_sqlite_parser stod) ts 0 (length ts) (new_Chart\<lparr>chart_data := Some df\<rparr>)
          = Some (Inr (length ts, chart))"
    by (auto simp: process_xvega_input_def split: option.splits sum.splits if_splits)
next
  assume "parse_loop (xv_sqlite_parser stod) ts 0 (length ts) (new_Chart\<lparr>chart_data := Some df\<rparr>)
          = Some (Inr (c, chart'))" and "c \<noteq> length ts"
  then show "process_xvega_input stod ts df
          = Some (Inl (Runtime_error ''This is not a valid command for SQLite XVega.''))"
    by (simp add: process_xvega_input_def)
next
  assume "parse_loop (xv_sqlite_parser stod) ts 0 (length ts) (new_Chart\<lparr>chart_data := Some df\<rparr>)
          = Some (Inr (c, chart'))" and "c \<noteq> length ts"
    and "parse_loop (xv_sqlite_parser stod) us 0 (length us) (new_Chart\<lparr>chart_data := Some df\<rparr>)
          = Some (Inr (d, chart''))" and "d \<noteq> length us"
  then show "process_xvega_input stod ts df = process_xvega_input stod us df"
    by (simp add: process_xvega_input_def)
next
  show "process_xvega_input stod [''WIDTH'', ''400'', ''FOO''] df
        = Some (Inl (Runtime_error ''This is not a valid command for SQLite XVega.''))"
    by (simp add: process_xvega_input_def run_simps xv_sqlite_parser_def xv_mapping_table_def
        xv_parse_init_def parse_width_def stoi_def isspace_def isdigit_def digit_value_def
        decimal_def)
qed

theorem process_xvega_input_whole_sequence_witness:
  "parse_loop (xv_sqlite_parser (\<lambda>s. Inr s)) [''HEIGHT'', ''30'', ''FOO'', ''7''] 0 4
       (new_Chart\<lparr>chart_data := Some ()\<rparr>)
     = Some (Inr (2, (new_Chart :: (string, unit) Chart)
          \<lparr>chart_data := Some (), chart_height := Some 30, chart_config_axis_grid := Some True\<rparr>))
   \<and> parse_loop (xv_sqlite_parser (\<lambda>s. Inr s)) [''GRID'', ''false'', ''command''] 0 3
       (new_Chart\<lparr>chart_data := Some ()\<rparr>)
     = Some (Inr (2, (new_Chart :: (string, unit) Chart)
          \<lparr>chart_data := Some (), chart_config_axis_grid := Some False\<rparr>))
   \<and> process_xvega_input (\<lambda>s. Inr s) [''HEIGHT'', ''30'', ''FOO'', ''7''] ()
     = (Some (Inl (Runtime_error ''This is not a valid command for SQLite XVega.''))
        :: (string, unit) Chart result)
   \<and> process_xvega_input (\<lambda>s. Inr s) [''HEIGHT'', ''30'', ''FOO'', ''7''] ()
     = (process_xvega_input (\<lambda>s. Inr s) [''GRID'', ''false'', ''command''] ()
        :: (string, unit) Chart result)"
proof -
  let ?stod = "(\<lambda>s. Inr s) :: string stod_fun"
  let ?ts = "[''HEIGHT'', ''30'', ''FOO'', ''7'']"
  let ?us = "[''GRID'', ''false'', ''command'']"
  let ?chart = "(new_Chart :: (string, unit) Chart)
      \<lparr>chart_data := Some (), chart_height := Some 30, chart_config_axis_grid := Some True\<rparr>"
  let ?chart' = "(new_Chart :: (string, unit) Chart)
      \<lparr>chart_data := Some (), chart_config_axis_grid := Some False\<rparr>"
  note T = process_xvega_input_whole_sequence [where stod = ?stod and ts = ?ts and df = "()"
      and chart = ?chart and c = 2 and chart' = ?chart and us = ?us and d = 2
      and chart'' = ?chart']
  have len: "length ?ts = 4" by simp
  have len': "length ?us = 3" by simp
  have run4: "parse_loop (xv_sqlite_parser ?stod) ?ts 0 4 (new_Chart\<lparr>chart_data := Some ()\<rparr>)
     = Some (Inr (2, ?chart))"
    by code_simp
  then have run: "parse_loop (xv_sqlite_parser ?stod) ?ts 0 (length ?ts)
      (new_Chart\<lparr>chart_data := Some ()\<rparr>) = Some (Inr (2, ?chart))"
    unfolding len .
  have run3: "parse_loop (xv_sqlite_parser ?stod) ?us 0 3 (new_Chart\<lparr>chart_data := Some ()\<rparr>)
     = Some (Inr (2, ?chart'))"
    by code_simp
  then have run': "parse_loop (xv_sqlite_parser ?stod) ?us 0 (length ?us)
      (new_Chart\<lparr>chart_data := Some ()\<rparr>) = Some (Inr (2, ?chart'))"
    unfolding len' .
  have ne: "(2::nat) \<noteq> length ?ts" by simp
  have ne': "(2::nat) \<noteq> length ?us" by simp
  have fails: "process_xvega_input ?stod ?ts ()
     = (Some (Inl (Runtime_error ''This is not a valid command for SQLite XVega.''))
        :: (string, unit) Chart result)"
    by (rule T [THEN conjunct2, THEN conjunct1, rule_format, OF run ne])
  have same: "process_xvega_input ?stod ?ts ()
     = (process_xvega_input ?stod ?us () :: (string, unit) Chart result)"
    by (rule T [THEN conjunct2, THEN conjunct2, THEN conjunct1, rule_format,
      OF run ne run' ne'])
  from run4 run3 fails same show ?thesis by (intro conjI)
qed

theorem unrecognized_input_message_counterexample:
  "process_xvega_input (\<lambda>s. Inr s) [''WIDTH'', ''400'', ''FOO''] ()
     = (Some (Inl (Runtime_error ''This is not a valid command for SQLite XVega.''))
        :: (string, unit) Chart result)
   \<and> CHR ''F'' \<notin> set ''This is not a valid command for SQLite XVega.''
   \<and> process_xvega_input (\<lambda>s. Inr s) [''WIDTH'', ''400'', ''FOO''] ()
     = (process_xvega_input (\<lambda>s. Inr s) [''WIDTH'', ''400'', ''QUX'', ''7''] ()
        :: (string, unit) Chart result)"
  by code_simp

text \<open>
  Claim C5. For every parser and every range of cursors, \<open>parse_loop\<close> first applies
  the parser's init step (the identity by default), then applies \<open>parse_step\<close> again
  and again until the cursor reaches \<open>end\<close> or a call returns the cursor it was given,
  and returns that cursor: it returns an outcome exactly when the init step returns
  and the loop of the specification, started where the init step stopped, halts with
  that outcome; the cursor returned is \<open>end\<close> or one that \<open>parse_step\<close> leaves where it
  is. A \<open>parse_step\<close> whose token is not in the table returns its cursor and the
  state unchanged and raises no error. The loops of the four parsers of the program
  return, whatever the tokens.
\<close>

theorem parse_loop_meets_spec:
  "(parse_loop p ts b fin s = Some r \<longleftrightarrow>
      (\<exists>r0. parse_init p ts b fin s = Some r0 \<and>
            (case r0 of Inl e \<Rightarrow> r = Inl e | Inr (it, s0) \<Rightarrow> loop_spec p ts fin it s0 r)))
   \<and> parse_init_default ts b fin s = Some (Inr (b, s))
   \<and> (loop_spec p ts fin it sa (Inr (c, s')) \<longrightarrow>
        c = fin \<or> (\<exists>s0. parse_step p ts c fin s0 = Some (Inr (c, s'))))
   \<and> (deref ts it' = Some tok \<longrightarrow> mapping_table p (to_upper tok) = None \<longrightarrow>
        parse_step p ts it' fin sb = Some (Inr (it', sb)))
   \<and> (\<forall>ts b fin s. parse_loop (bin_parser stod) ts b fin s \<noteq> None)
   \<and> (\<forall>ts b fin s. parse_loop (field_parser stod) ts b fin s \<noteq> None)
   \<and> (\<forall>ts b fin (s :: ('d, 'df) Chart). parse_loop mark_parser ts b fin s \<noteq> None)
   \<and> (\<forall>ts b fin (s :: ('d, 'df) Chart). parse_loop (xv_sqlite_parser stod) ts b fin s \<noteq> None)"
proof (intro conjI impI allI)
  show "parse_loop p ts b fin s = Some r \<longleftrightarrow>
      (\<exists>r0. parse_init p ts b fin s = Some r0 \<and>
            (case r0 of Inl e \<Rightarrow> r = Inl e | Inr (it, s0) \<Rightarrow> loop_spec p ts fin it s0 r))"
    by (auto simp: parse_loop_def split: option.splits sum.splits
        dest: parse_loop_from_loop_spec loop_spec_parse_loop_from)
next
  show "parse_init_default ts b fin s = Some (Inr (b, s))"
    by (simp add: parse_init_default_def)
next
  assume "loop_spec p ts fin it sa (Inr (c, s'))"
  then show "c = fin \<or> (\<exists>s0. parse_step p ts c fin s0 = Some (Inr (c, s')))"
    by (rule loop_spec_final) simp
next
  assume "deref ts it' = Some tok" and "mapping_table p (to_upper tok) = None"
  then show "parse_step p ts it' fin sb = Some (Inr (it', sb))"
    by (simp add: parse_step_def)
next
  show "parse_loop (bin_parser stod) ts b fin s \<noteq> None" for ts b fin s
    by (rule bin_loop_returns)
next
  show "parse_loop (field_parser stod) ts b fin s \<noteq> None" for ts b fin s
    by (rule field_loop_returns)
next
  show "parse_loop mark_parser ts b fin s \<noteq> None" for ts b fin and s :: "('d, 'df) Chart"
    by (rule mark_loop_returns)
next
  show "parse_loop (xv_sqlite_parser stod) ts b fin s \<noteq> None"
    for ts b fin and s :: "('d, 'df) Chart"
    by (rule xv_loop_returns)
qed

theorem parse_loop_meets_spec_witness:
  "loop_spec (mark_parser :: (unit, unit) Chart parser) [''bar'', ''COLOR'', ''Red'', ''FOO''] 4 1
      (new_Chart\<lparr>chart_mark := Any_mark mark_bar None\<rparr>)
      (Inr (3, new_Chart\<lparr>chart_mark := Any_mark mark_bar (Some ''red'')\<rparr>))
   \<and> parse_step (mark_parser :: (unit, unit) Chart parser) [''bar'', ''COLOR'', ''Red'', ''FOO''] 3 4
        (new_Chart\<lparr>chart_mark := Any_mark mark_bar (Some ''red'')\<rparr>)
      = Some (Inr (3, new_Chart\<lparr>chart_mark := Any_mark mark_bar (Some ''red'')\<rparr>))
   \<and> (\<exists>s0. parse_step (mark_parser :: (unit, unit) Chart parser) [''bar'', ''COLOR'', ''Red'', ''FOO''] 3 4 s0
        = Some (Inr (3, new_Chart\<lparr>chart_mark := Any_mark mark_bar (Some ''red'')\<rparr>)))"
proof -
  let ?p = "mark_parser :: (unit, unit) Chart parser"
  let ?ts = "[''bar'', ''COLOR'', ''Red'', ''FOO'']"
  let ?s1 = "(new_Chart\<lparr>chart_mark := Any_mark mark_bar (Some ''red'')\<rparr>) :: (unit, unit) Chart"
  have run: "parse_loop ?p ?ts 0 4 new_Chart = Some (Inr (3, ?s1))"
    by code_simp
  have init: "parse_init ?p ?ts 0 4 new_Chart = Some (Inr (1, new_Chart\<lparr>chart_mark := Any_mark mark_bar None\<rparr>))"
    by code_simp
  have tok: "deref ?ts 3 = Some ''FOO''" by code_simp
  have tab: "mapping_table ?p (to_upper ''FOO'') = None" by code_simp
  note T = parse_loop_meets_spec [where p = ?p and ts = ?ts and b = 0 and fin = 4
      and s = new_Chart and r = "Inr (3, ?s1)" and it = 1
      and sa = "new_Chart\<lparr>chart_mark := Any_mark mark_bar None\<rparr>" and c = 3 and s' = ?s1
      and it' = 3 and tok = "''FOO''" and sb = ?s1 and stod = "(\<lambda>s. Inr s) :: string stod_fun",
      where ?'df = unit]
  from T [THEN conjunct1] run init
  have spec: "loop_spec ?p ?ts 4 1 (new_Chart\<lparr>chart_mark := Any_mark mark_bar None\<rparr>)
      (Inr (3, ?s1))"
    by simp
  have step: "parse_step ?p ?ts 3 4 ?s1 = Some (Inr (3, ?s1))"
    by (rule T [THEN conjunct2, THEN conjunct2, THEN conjunct2, THEN conjunct1, rule_format,
      OF tok tab])
  from T [THEN conjunct2, THEN conjunct2, THEN conjunct1, rule_format, OF spec]
  have final: "\<exists>s0. parse_step ?p ?ts 3 4 s0 = Some (Inr (3, ?s1))"
    by simp
  from spec step final show ?thesis by (intro conjI)
qed

text \<open>
  Claim C6. Keywords are matched without regard to case, in the enumeration resolver
  and in the lookup of the command table: \<open>simple_switch\<close> gives the same result for a
  token and for its upper-case form. In the init step of \<open>mark_parser\<close> the tokens
  \<^verbatim>\<open>bar\<close>, \<^verbatim>\<open>Bar\<close> and \<^verbatim>\<open>BAR\<close> select the same kind of mark, and \<^verbatim>\<open>barr\<close> matches none
  and raises \<^verbatim>\<open>Missing or invalid MARK type\<close>; \<open>parse_step\<close> finds the command
  \<^verbatim>\<open>WIDTH\<close> for the tokens \<^verbatim>\<open>width\<close> and \<^verbatim>\<open>Width\<close>.
\<close>

theorem keyword_matching_ignores_case:
  "simple_switch token handlers s = simple_switch (to_upper token) handlers s
   \<and> mark_parse_init [''bar''] 0 1 chart
        = Some (Inr (1, chart\<lparr>chart_mark := Any_mark mark_bar None\<rparr>))
   \<and> mark_parse_init [''Bar''] 0 1 chart
        = Some (Inr (1, chart\<lparr>chart_mark := Any_mark mark_bar None\<rparr>))
   \<and> mark_parse_init [''BAR''] 0 1 chart
        = Some (Inr (1, chart\<lparr>chart_mark := Any_mark mark_bar None\<rparr>))
   \<and> mark_parse_init [''barr''] 0 1 chart
        = Some (Inl (Runtime_error ''Missing or invalid MARK type''))
   \<and> parse_step (xv_sqlite_parser stod) [''width'', ''400''] 0 2 chart
        = Some (Inr (2, chart\<lparr>chart_width := Some 400\<rparr>))
   \<and> parse_step (xv_sqlite_parser stod) [''Width'', ''400''] 0 2 chart
        = parse_step (xv_sqlite_parser stod) [''WIDTH'', ''400''] 0 2 chart"
proof (intro conjI)
  show "simple_switch token handlers s = simple_switch (to_upper token) handlers s"
    by (simp add: simple_switch_def to_upper_idem)
next
  show "mark_parse_init [''bar''] 0 1 chart
        = Some (Inr (1, chart\<lparr>chart_mark := Any_mark mark_bar None\<rparr>))"
    by (simp add: mark_parse_init_def mark_cases_def simple_switch_def deref_def to_upper_def
        toupper_def)
next
  show "mark_parse_init [''Bar''] 0 1 chart
        = Some (Inr (1, chart\<lparr>chart_mark := Any_mark mark_bar None\<rparr>))"
    by (simp add: mark_parse_init_def mark_cases_def simple_switch_def deref_def to_upper_def
        toupper_def)
next
  show "mark_parse_init [''BAR''] 0 1 chart
        = Some (Inr (1, chart\<lparr>chart_mark := Any_mark mark_bar None\<rparr>))"
    by (simp add: mark_parse_init_def mark_cases_def simple_switch_def deref_def to_upper_def
        toupper_def)
next
  show "mark_parse_init [''barr''] 0 1 chart
        = Some (Inl (Runtime_error ''Missing or invalid MARK type''))"
    by (simp add: mark_parse_init_def mark_cases_def simple_switch_def deref_def to_upper_def
        toupper_def)
next
  show "parse_step (xv_sqlite_parser stod) [''width'', ''400''] 0 2 chart
        = Some (Inr (2, chart\<lparr>chart_width := Some 400\<rparr>))"
    by (simp add: run_simps xv_sqlite_parser_def xv_mapping_table_def parse_width_def stoi_def
        isspace_def isdigit_def digit_value_def decimal_def)
next
  show "parse_step (xv_sqlite_parser stod) [''Width'', ''400''] 0 2 chart
        = parse_step (xv_sqlite_parser stod) [''WIDTH'', ''400''] 0 2 chart"
    by (simp add: run_simps xv_sqlite_parser_def xv_mapping_table_def parse_width_def stoi_def
        isspace_def isdigit_def digit_value_def decimal_def)
qed

text \<open>
  Claim C7. The cursor never moves backward. For each of the four parsers
  (\<open>bin_parser\<close>, \<open>field_parser\<close>, \<open>mark_parser\<close>, \<open>xv_sqlite_parser\<close>), every call of
  \<open>parse_step\<close> and of \<open>parse_loop\<close> that returns, returns a cursor greater than or equal
  to the one it was passed, and so does every range parse function, those that run
  the loop of another parser included (\<open>parse_field_bin\<close>, \<open>parse_x_field\<close>,
  \<open>parse_y_field\<close>, \<open>parse_mark\<close>). After a point parse function the engine itself moves
  the cursor forward, which \<open>parse_step\<close> covers.
\<close>

theorem cursor_never_moves_backward:
  "(\<forall>ts it fin s c s'. parse_step (bin_parser stod) ts it fin s = Some (Inr (c, s')) \<longrightarrow> it \<le> c)
   \<and> (\<forall>ts b fin s c s'. parse_loop (bin_parser stod) ts b fin s = Some (Inr (c, s')) \<longrightarrow> b \<le> c)
   \<and> (\<forall>ts b fin s c s'. parse_field_bin stod ts b fin s = Some (Inr (c, s')) \<longrightarrow> b \<le> c)
   \<and> (\<forall>ts b fin s c s'.
         (parse_field_aggregate ts b fin s :: (nat \<times> 'd field_enc) result) = Some (Inr (c, s')) \<longrightarrow> b \<le> c)
   \<and> (\<forall>ts it fin s c s'. parse_step (field_parser stod) ts it fin s = Some (Inr (c, s')) \<longrightarrow> it \<le> c)
   \<and> (\<forall>ts b fin s c s'. parse_loop (field_parser stod) ts b fin s = Some (Inr (c, s')) \<longrightarrow> b \<le> c)
   \<and> (\<forall>ts it fin s c s'.
         parse_step (mark_parser :: ('d, 'df) Chart parser) ts it fin s = Some (Inr (c, s')) \<longrightarrow> it \<le> c)
   \<and> (\<forall>ts b fin s c s'.
         parse_loop (mark_parser :: ('d, 'df) Chart parser) ts b fin s = Some (Inr (c, s')) \<longrightarrow> b \<le> c)
   \<and> (\<forall>ts b fin s c s'.
         (parse_x_field stod ts b fin s :: (nat \<times> ('d, 'df) Chart) result) = Some (Inr (c, s')) \<longrightarrow> b \<le> c)
   \<and> (\<forall>ts b fin s c s'.
         (parse_y_field stod ts b fin s :: (nat \<times> ('d, 'df) Chart) result) = Some (Inr (c, s')) \<longrightarrow> b \<le> c)
   \<and> (\<forall>ts b fin s c s'.
         (parse_mark ts b fin s :: (nat \<times> ('d, 'df) Chart) result) = Some (Inr (c, s')) \<longrightarrow> b \<le> c)
   \<and> (\<forall>ts it fin s c s'.
         parse_step (xv_sqlite_parser stod :: ('d, 'df) Chart parser) ts it fin s = Some (Inr (c, s'))
           \<longrightarrow> it \<le> c)
   \<and> (\<forall>ts b fin s c s'.
         parse_loop (xv_sqlite_parser stod :: ('d, 'df) Chart parser) ts b fin s = Some (Inr (c, s'))
           \<longrightarrow> b \<le> c)"
proof (intro conjI allI impI)
  fix ts it fin c and s s' :: "'d bin_parser"
  assume "parse_step (bin_parser stod) ts it fin s = Some (Inr (c, s'))"
  then show "it \<le> c" by (rule bin_step_cursor)
next
  fix ts b fin c and s s' :: "'d bin_parser"
  assume "parse_loop (bin_parser stod) ts b fin s = Some (Inr (c, s'))"
  then show "b \<le> c" by (rule bin_loop_cursor)
next
  fix ts b fin c and s s' :: "'d field_enc"
  assume "parse_field_bin stod ts b fin s = Some (Inr (c, s'))"
  then show "b \<le> c" by (rule parse_field_bin_cursor)
next
  fix ts b fin c and s s' :: "'d field_enc"
  assume "parse_field_aggregate ts b fin s = Some (Inr (c, s'))"
  then show "b \<le> c" by (rule parse_field_aggregate_cursor)
next
  fix ts it fin c and s s' :: "'d field_enc"
  assume "parse_step (field_parser stod) ts it fin s = Some (Inr (c, s'))"
  then show "it \<le> c" by (rule field_step_cursor)
next
  fix ts b fin c and s s' :: "'d field_enc"
  assume "parse_loop (field_parser stod) ts b fin s = Some (Inr (c, s'))"
  then show "b \<le> c" by (rule field_loop_cursor)
next
  fix ts it fin c and s s' :: "('d, 'df) Chart"
  assume "parse_step mark_parser ts it fin s = Some (Inr (c, s'))"
  then show "it \<le> c" by (rule mark_step_cursor)
next
  fix ts b fin c and s s' :: "('d, 'df) Chart"
  assume "parse_loop mark_parser ts b fin s = Some (Inr (c, s'))"
  then show "b \<le> c" by (rule mark_loop_cursor)
next
  fix ts b fin c and s s' :: "('d, 'df) Chart"
  assume "parse_x_field stod ts b fin s = Some (Inr (c, s'))"
  then show "b \<le> c" by (rule parse_x_field_cursor)
next
  fix ts b fin c and s s' :: "('d, 'df) Chart"
  assume "parse_y_field stod ts b fin s = Some (Inr (c, s'))"
  then show "b \<le> c" by (rule parse_y_field_cursor)
next
  fix ts b fin c and s s' :: "('d, 'df) Chart"
  assume "parse_mark ts b fin s = Some (Inr (c, s'))"
  then show "b \<le> c" by (auto simp: parse_mark_def dest: mark_loop_cursor)
next
  fix ts it fin c and s s' :: "('d, 'df) Chart"
  assume "parse_step (xv_sqlite_parser stod) ts it fin s = Some (Inr (c, s'))"
  then show "it \<le> c" by (rule xv_step_cursor)
next
  fix ts b fin c and s s' :: "('d, 'df) Chart"
  assume "parse_loop (xv_sqlite_parser stod) ts b fin s = Some (Inr (c, s'))"
  then show "b \<le> c" by (rule xv_loop_cursor)
qed

theorem cursor_never_moves_backward_witness:
  "cursor_of (parse_step (bin_parser (\<lambda>s. Inr s)) [''X_FIELD'', ''price'', ''BIN'', ''STEP'', ''5'', ''AGGREGATE'', ''MEAN'', ''Y_FIELD'', ''qty'', ''MARK'', ''BAR'', ''COLOR'', ''RED''] 3 13 \<lparr>bin = new_Bin, num_parsed_attrs = 0\<rparr>) = Some 5 \<and> (3 :: nat) \<le> 5
   \<and> cursor_of (parse_loop (bin_parser (\<lambda>s. Inr s)) [''X_FIELD'', ''price'', ''BIN'', ''STEP'', ''5'', ''AGGREGATE'', ''MEAN'', ''Y_FIELD'', ''qty'', ''MARK'', ''BAR'', ''COLOR'', ''RED''] 3 13 \<lparr>bin = new_Bin, num_parsed_attrs = 0\<rparr>) = Some 5 \<and> (3 :: nat) \<le> 5
   \<and> cursor_of (parse_field_bin (\<lambda>s. Inr s) [''X_FIELD'', ''price'', ''BIN'', ''STEP'', ''5'', ''AGGREGATE'', ''MEAN'', ''Y_FIELD'', ''qty'', ''MARK'', ''BAR'', ''COLOR'', ''RED''] 3 13 new_field_enc) = Some 5 \<and> (3 :: nat) \<le> 5
   \<and> cursor_of (parse_field_aggregate [''X_FIELD'', ''price'', ''BIN'', ''STEP'', ''5'', ''AGGREGATE'', ''MEAN'', ''Y_FIELD'', ''qty'', ''MARK'', ''BAR'', ''COLOR'', ''RED''] 6 13 (new_field_enc :: string field_enc)) = Some 7 \<and> (6 :: nat) \<le> 7
   \<and> cursor_of (parse_step (field_parser (\<lambda>s. Inr s)) [''X_FIELD'', ''price'', ''BIN'', ''STEP'', ''5'', ''AGGREGATE'', ''MEAN'', ''Y_FIELD'', ''qty'', ''MARK'', ''BAR'', ''COLOR'', ''RED''] 2 13 new_field_enc) = Some 5 \<and> (2 :: nat) \<le> 5
   \<and> cursor_of (parse_loop (field_parser (\<lambda>s. Inr s)) [''X_FIELD'', ''price'', ''BIN'', ''STEP'', ''5'', ''AGGREGATE'', ''MEAN'', ''Y_FIELD'', ''qty'', ''MARK'', ''BAR'', ''COLOR'', ''RED''] 1 13 new_field_enc) = Some 7 \<and> (1 :: nat) \<le> 7
   \<and> cursor_of (parse_step mark_parser [''X_FIELD'', ''price'', ''BIN'', ''STEP'', ''5'', ''AGGREGATE'', ''MEAN'', ''Y_FIELD'', ''qty'', ''MARK'', ''BAR'', ''COLOR'', ''RED''] 11 13 (new_Chart\<lparr>chart_mark := Any_mark mark_bar None\<rparr> :: (string, unit) Chart)) = Some 13 \<and> (11 :: nat) \<le> 13
   \<and> cursor_of (parse_loop mark_parser [''X_FIELD'', ''price'', ''BIN'', ''STEP'', ''5'', ''AGGREGATE'', ''MEAN'', ''Y_FIELD'', ''qty'', ''MARK'', ''BAR'', ''COLOR'', ''RED''] 10 13 (new_Chart :: (string, unit) Chart)) = Some 13 \<and> (10 :: nat) \<le> 13
   \<and> cursor_of (parse_x_field (\<lambda>s. Inr s) [''X_FIELD'', ''price'', ''BIN'', ''STEP'', ''5'', ''AGGREGATE'', ''MEAN'', ''Y_FIELD'', ''qty'', ''MARK'', ''BAR'', ''COLOR'', ''RED''] 1 13 (new_Chart :: (string, unit) Chart)) = Some 7 \<and> (1 :: nat) \<le> 7
   \<and> cursor_of (parse_y_field (\<lambda>s. Inr s) [''X_FIELD'', ''price'', ''BIN'', ''STEP'', ''5'', ''AGGREGATE'', ''MEAN'', ''Y_FIELD'', ''qty'', ''MARK'', ''BAR'', ''COLOR'', ''RED''] 8 13 (new_Chart :: (string, unit) Chart)) = Some 9 \<and> (8 :: nat) \<le> 9
   \<and> cursor_of (parse_mark [''X_FIELD'', ''price'', ''BIN'', ''STEP'', ''5'', ''AGGREGATE'', ''MEAN'', ''Y_FIELD'', ''qty'', ''MARK'', ''BAR'', ''COLOR'', ''RED''] 10 13 (new_Chart :: (string, unit) Chart)) = Some 13 \<and> (10 :: nat) \<le> 13
   \<and> cursor_of (parse_step (xv_sqlite_parser (\<lambda>s. Inr s)) [''X_FIELD'', ''price'', ''BIN'', ''STEP'', ''5'', ''AGGREGATE'', ''MEAN'', ''Y_FIELD'', ''qty'', ''MARK'', ''BAR'', ''COLOR'', ''RED''] 7 13 (new_Chart :: (string, unit) Chart)) = Some 9 \<and> (7 :: nat) \<le> 9
   \<and> cursor_of (parse_loop (xv_sqlite_parser (\<lambda>s. Inr s)) [''X_FIELD'', ''price'', ''BIN'', ''STEP'', ''5'', ''AGGREGATE'', ''MEAN'', ''Y_FIELD'', ''qty'', ''MARK'', ''BAR'', ''COLOR'', ''RED''] 0 13 (new_Chart :: (string, unit) Chart)) = Some 13 \<and> (0 :: nat) \<le> 13"
proof -
  let ?stod = "(\<lambda>s. Inr s) :: string stod_fun"
  let ?ts = "[''X_FIELD'', ''price'', ''BIN'', ''STEP'', ''5'', ''AGGREGATE'', ''MEAN'',
       ''Y_FIELD'', ''qty'', ''MARK'', ''BAR'', ''COLOR'', ''RED'']"
  let ?b0 = "\<lparr>bin = new_Bin, num_parsed_attrs = 0\<rparr> :: string bin_parser"
  let ?c0 = "new_Chart :: (string, unit) Chart"
  let ?c1 = "new_Chart\<lparr>chart_mark := Any_mark mark_bar None\<rparr> :: (string, unit) Chart"
  note T = cursor_never_moves_backward [of ?stod, where ?'df = unit]
  have r1: "cursor_of (parse_step (bin_parser ?stod) ?ts 3 13 ?b0) = Some 5"
    by code_simp
  then obtain s1 where "parse_step (bin_parser ?stod) ?ts 3 13 ?b0 = Some (Inr (5, s1))"
    unfolding cursor_of_Some by blast
  from T [THEN conjunct1, rule_format, OF this] have l1: "(3 :: nat) \<le> 5" .
  note T1 = T [THEN conjunct2]
  have r2: "cursor_of (parse_loop (bin_parser ?stod) ?ts 3 13 ?b0) = Some 5"
    by code_simp
  then obtain s2 where "parse_loop (bin_parser ?stod) ?ts 3 13 ?b0 = Some (Inr (5, s2))"
    unfolding cursor_of_Some by blast
  from T1 [THEN conjunct1, rule_format, OF this] have l2: "(3 :: nat) \<le> 5" .
  note T2 = T1 [THEN conjunct2]
  have r3: "cursor_of (parse_field_bin ?stod ?ts 3 13 new_field_enc) = Some 5"
    by code_simp
  then obtain s3 where "parse_field_bin ?stod ?ts 3 13 new_field_enc = Some (Inr (5, s3))"
    unfolding cursor_of_Some by blast
  from T2 [THEN conjunct1, rule_format, OF this] have l3: "(3 :: nat) \<le> 5" .
  note T3 = T2 [THEN conjunct2]
  have r4: "cursor_of (parse_field_aggregate ?ts 6 13 (new_field_enc :: string field_enc)) = Some 7"
    by code_simp
  then obtain s4 where "parse_field_aggregate ?ts 6 13 (new_field_enc :: string field_enc) = Some (Inr (7, s4))"
    unfolding cursor_of_Some by blast
  from T3 [THEN conjunct1, rule_format, OF this] have l4: "(6 :: nat) \<le> 7" .
  note T4 = T3 [THEN conjunct2]
  have r5: "cursor_of (parse_step (field_parser ?stod) ?ts 2 13 new_field_enc) = Some 5"
    by code_simp
  then obtain s5 where "parse_step (field_parser ?stod) ?ts 2 13 new_field_enc = Some (Inr (5, s5))"
    unfolding cursor_of_Some by blast
  from T4 [THEN conjunct1, rule_format, OF this] have l5: "(2 :: nat) \<le> 5" .
  note T5 = T4 [THEN conjunct2]
  have r6: "cursor_of (parse_loop (field_parser ?stod) ?ts 1 13 new_field_enc) = Some 7"
    by code_simp
  then obtain s6 where "parse_loop (field_parser ?stod) ?ts 1 13 new_field_enc = Some (Inr (7, s6))"
    unfolding cursor_of_Some by blast
  from T5 [THEN conjunct1, rule_format, OF this] have l6: "(1 :: nat) \<le> 7" .
  note T6 = T5 [THEN conjunct2]
  have r7: "cursor_of (parse_step mark_parser ?ts 11 13 ?c1) = Some 13"
    by code_simp
  then obtain s7 where "parse_step mark_parser ?ts 11 13 ?c1 = Some (Inr (13, s7))"
    unfolding cursor_of_Some by blast
  from T6 [THEN conjunct1, rule_format, OF this] have l7: "(11 :: nat) \<le> 13" .
  note T7 = T6 [THEN conjunct2]
  have r8: "cursor_of (parse_loop mark_parser ?ts 10 13 ?c0) = Some 13"
    by code_simp
  then obtain s8 where "parse_loop mark_parser ?ts 10 13 ?c0 = Some (Inr (13, s8))"
    unfolding cursor_of_Some by blast
  from T7 [THEN conjunct1, rule_format, OF this] have l8: "(10 :: nat) \<le> 13" .
  note T8 = T7 [THEN conjunct2]
  have r9: "cursor_of (parse_x_field ?stod ?ts 1 13 ?c0) = Some 7"
    by code_simp
  then obtain s9 where "parse_x_field ?stod ?ts 1 13 ?c0 = Some (Inr (7, s9))"
    unfolding cursor_of_Some by blast
  from T8 [THEN conjunct1, rule_format, OF this] have l9: "(1 :: nat) \<le> 7" .
  note T9 = T8 [THEN conjunct2]
  have r10: "cursor_of (parse_y_field ?stod ?ts 8 13 ?c0) = Some 9"
    by code_simp
  then obtain s10 where "parse_y_field ?stod ?ts 8 13 ?c0 = Some (Inr (9, s10))"
    unfolding cursor_of_Some by blast
  from T9 [THEN conjunct1, rule_format, OF this] have l10: "(8 :: nat) \<le> 9" .
  note T10 = T9 [THEN conjunct2]
  have r11: "cursor_of (parse_mark ?ts 10 13 ?c0) = Some 13"
    by code_simp
  then obtain s11 where "parse_mark ?ts 10 13 ?c0 = Some (Inr (13, s11))"
    unfolding cursor_of_Some by blast
  from T10 [THEN conjunct1, rule_format, OF this] have l11: "(10 :: nat) \<le> 13" .
  note T11 = T10 [THEN conjunct2]
  have r12: "cursor_of (parse_step (xv_sqlite_parser ?stod) ?ts 7 13 ?c0) = Some 9"
    by code_simp
  then obtain s12 where "parse_step (xv_sqlite_parser ?stod) ?ts 7 13 ?c0 = Some (Inr (9, s12))"
    unfolding cursor_of_Some by blast
  from T11 [THEN conjunct1, rule_format, OF this] have l12: "(7 :: nat) \<le> 9" .
  note T12 = T11 [THEN conjunct2]
  have r13: "cursor_of (parse_loop (xv_sqlite_parser ?stod) ?ts 0 13 ?c0) = Some 13"
    by code_simp
  then obtain s13 where "parse_loop (xv_sqlite_parser ?stod) ?ts 0 13 ?c0 = Some (Inr (13, s13))"
    unfolding cursor_of_Some by blast
  from T12 [rule_format, OF this] have l13: "(0 :: nat) \<le> 13" .
  from r1 l1 r2 l2 r3 l3 r4 l4 r5 l5 r6 l6 r7 l7 r8 l8 r9 l9 r10 l10 r11 l11 r12 l12 r13 l13
  show ?thesis by (intro conjI)
qed

text \<open>
  Claim C8. For every value and every visitor map: when the map has no visitor for
  the type of the value, \<open>visit_any\<close> writes one line of diagnostic and returns the
  state as it was, with no error; when it has one, the outcome is that of this
  visitor called on the value, and nothing is written. In \<open>parse_color\<close> a mark of
  every kind has a visitor; for an empty \<^verbatim>\<open>mark\<close> property the chart is returned
  unchanged, and the step of \<open>mark_parser\<close> goes on past the colour token that follows
  the keyword.
\<close>

theorem visit_any_dispatch:
  "(any_visitor (any_type a) = None \<longrightarrow>
      visit_any a any_visitor s
        = (Inr s, [''Unregistered type '' @ quoted (demangle (any_type a))]))
   \<and> (any_visitor (any_type a) = Some visitor \<longrightarrow>
      visit_any a any_visitor s = (visitor a s, []))
   \<and> (chart_mark chart = Any_empty \<longrightarrow> parse_color ts it chart = Inr chart)
   \<and> (chart_mark chart = Any_empty \<longrightarrow> deref ts' it' = Some tok \<longrightarrow> to_upper tok = ''COLOR'' \<longrightarrow>
        deref ts' (it' + 1) = Some colour \<longrightarrow> it' < fin \<longrightarrow>
        parse_step mark_parser ts' it' fin chart = Some (Inr (it' + 2, chart)))
   \<and> map_of (color_visitors ts it) (Type_closure_wrapper k) = Some (color_visitor ts it)
   \<and> map_of (color_visitors ts it) Type_void = None"
proof (intro conjI impI)
  assume "any_visitor (any_type a) = None"
  then show "visit_any a any_visitor s
        = (Inr s, [''Unregistered type '' @ quoted (demangle (any_type a))])"
    by (simp add: visit_any_def)
next
  assume "any_visitor (any_type a) = Some visitor"
  then show "visit_any a any_visitor s = (visitor a s, [])"
    by (simp add: visit_any_def)
next
  assume "chart_mark chart = Any_empty"
  then show "parse_color ts it chart = Inr chart"
    by (simp add: parse_color_def visit_any_def color_visitors_def)
next
  assume "chart_mark chart = Any_empty" and "deref ts' it' = Some tok"
    and "to_upper tok = ''COLOR''" and "deref ts' (it' + 1) = Some colour" and "it' < fin"
  then show "parse_step mark_parser ts' it' fin chart = Some (Inr (it' + 2, chart))"
    by (auto simp: parse_step_def mark_parser_def mark_mapping_table_def parse_color_def
        visit_any_def color_visitors_def deref_def split: if_splits)
next
  show "map_of (color_visitors ts it) (Type_closure_wrapper k) = Some (color_visitor ts it)"
    by (cases k) (simp_all add: color_visitors_def)
next
  show "map_of (color_visitors ts it) Type_void = None"
    by (simp add: color_visitors_def)
qed

theorem visit_any_dispatch_witness:
  "visit_any Any_empty (map_of (color_visitors [''COLOR'', ''Red''] 1)) (new_Chart :: (unit, unit) Chart)
     = (Inr new_Chart, [''Unregistered type '' @ quoted ''void''])
   \<and> visit_any (Any_mark mark_bar None) (map_of (color_visitors [''COLOR'', ''Red''] 1))
        (new_Chart :: (unit, unit) Chart)
     = (Inr (new_Chart\<lparr>chart_mark := Any_mark mark_bar (Some ''red'')\<rparr>), [])
   \<and> parse_color [''COLOR'', ''Red''] 1 (new_Chart :: (unit, unit) Chart) = Inr new_Chart
   \<and> parse_step mark_parser [''COLOR'', ''Red''] 0 2 (new_Chart :: (unit, unit) Chart)
     = Some (Inr (2, new_Chart))"
proof -
  let ?ts = "[''COLOR'', ''Red'']"
  let ?c = "new_Chart :: (unit, unit) Chart"
  let ?m = "map_of (color_visitors ?ts 1) :: (unit, unit) Chart visitor_map_type"
  have none: "?m (any_type Any_empty) = None"
    by (simp add: color_visitors_def)
  have some: "?m (any_type (Any_mark mark_bar None)) = Some (color_visitor ?ts 1)"
    by (simp add: color_visitors_def)
  have empty: "chart_mark ?c = Any_empty" by (simp add: new_Chart_def)
  have tok: "deref ?ts 0 = Some ''COLOR''" by (simp add: deref_def)
  have up: "to_upper ''COLOR'' = ''COLOR''" by (simp add: to_upper_def toupper_def)
  have lt: "(0::nat) < 2" by simp
  have val: "deref ?ts (0 + 1) = Some ''Red''" by (simp add: deref_def)
  have a: "visit_any Any_empty ?m ?c = (Inr ?c, [''Unregistered type '' @ quoted ''void''])"
    using visit_any_dispatch [where a = Any_empty and any_visitor = ?m and s = ?c,
        THEN conjunct1, rule_format, OF none]
    by simp
  have b: "visit_any (Any_mark mark_bar None) ?m ?c
      = (Inr (?c\<lparr>chart_mark := Any_mark mark_bar (Some ''red'')\<rparr>), [])"
    using visit_any_dispatch [where a = "Any_mark mark_bar None" and any_visitor = ?m and s = ?c
          and visitor = "color_visitor ?ts 1",
        THEN conjunct2, THEN conjunct1, rule_format, OF some]
    by (simp add: color_visitor_def deref_def to_lower_def tolower_def)
  note T = visit_any_dispatch [where chart = ?c and ts = ?ts and it = 1 and ts' = ?ts
      and it' = 0 and tok = "''COLOR''" and colour = "''Red''" and fin = 2]
  have c: "parse_color ?ts 1 ?c = Inr ?c"
    by (rule T [THEN conjunct2, THEN conjunct2, THEN conjunct1, rule_format, OF empty])
  have d: "parse_step mark_parser ?ts 0 2 ?c = Some (Inr (2, ?c))"
    using T [THEN conjunct2, THEN conjunct2, THEN conjunct2, THEN conjunct1, rule_format,
        OF empty tok up val lt]
    by simp
  from a b c d show ?thesis by (intro conjI)
qed

text \<open>
  Claim C9. Each of the three enumerations maps its keywords to stored values
  injectively. There are 22 aggregate keywords, 9 time-unit keywords and 11 mark
  keywords, all distinct. Two tokens that \<open>parse_field_aggregate\<close> accepts and that are
  different keywords (they differ after case folding) store different aggregate
  values in the same encoding; likewise \<open>parse_field_time_unit\<close> for the time unit and
  the init step of \<open>mark_parser\<close> for the mark.
\<close>

theorem keyword_values_injective:
  "length (field_aggregate_cases :: (string \<times> ('d field_enc \<Rightarrow> 'd field_enc)) list) = 22
   \<and> length (field_time_unit_cases :: (string \<times> ('d field_enc \<Rightarrow> 'd field_enc)) list) = 9
   \<and> length (mark_cases :: (string \<times> (('d, 'df) Chart \<Rightarrow> ('d, 'df) Chart)) list) = 11
   \<and> distinct (map fst (field_aggregate_cases :: (string \<times> ('d field_enc \<Rightarrow> 'd field_enc)) list))
   \<and> distinct (map fst (field_time_unit_cases :: (string \<times> ('d field_enc \<Rightarrow> 'd field_enc)) list))
   \<and> distinct (map fst (mark_cases :: (string \<times> (('d, 'df) Chart \<Rightarrow> ('d, 'df) Chart)) list))
   \<and> (\<forall>ts it fin ts' it' fin' c c' x1 x2 (x :: 'd field_enc).
        parse_field_aggregate ts it fin x = Some (Inr (c, x1)) \<longrightarrow>
        parse_field_aggregate ts' it' fin' x = Some (Inr (c', x2)) \<longrightarrow>
        to_upper (ts ! it) \<noteq> to_upper (ts' ! it') \<longrightarrow>
        enc_aggregate x1 \<noteq> enc_aggregate x2)
   \<and> (\<forall>ts it ts' it' x1 x2 (x :: 'd field_enc).
        parse_field_time_unit ts it x = Inr x1 \<longrightarrow>
        parse_field_time_unit ts' it' x = Inr x2 \<longrightarrow>
        to_upper (ts ! it) \<noteq> to_upper (ts' ! it') \<longrightarrow>
        enc_timeUnit x1 \<noteq> enc_timeUnit x2)
   \<and> (\<forall>ts it fin ts' it' fin' c c' x1 x2 (x :: ('d, 'df) Chart).
        mark_parse_init ts it fin x = Some (Inr (c, x1)) \<longrightarrow>
        mark_parse_init ts' it' fin' x = Some (Inr (c', x2)) \<longrightarrow>
        to_upper (ts ! it) \<noteq> to_upper (ts' ! it') \<longrightarrow>
        chart_mark x1 \<noteq> chart_mark x2)"
proof (intro conjI allI impI)
  show "length (field_aggregate_cases :: (string \<times> ('d field_enc \<Rightarrow> 'd field_enc)) list) = 22"
    by (simp add: field_aggregate_cases_def)
  show "length (field_time_unit_cases :: (string \<times> ('d field_enc \<Rightarrow> 'd field_enc)) list) = 9"
    by (simp add: field_time_unit_cases_def)
  show "length (mark_cases :: (string \<times> (('d, 'df) Chart \<Rightarrow> ('d, 'df) Chart)) list) = 11"
    by (simp add: mark_cases_def)
  show "distinct (map fst (field_aggregate_cases :: (string \<times> ('d field_enc \<Rightarrow> 'd field_enc)) list))"
    by (simp add: field_aggregate_cases_def)
  show "distinct (map fst (field_time_unit_cases :: (string \<times> ('d field_enc \<Rightarrow> 'd field_enc)) list))"
    by (simp add: field_time_unit_cases_def)
  show "distinct (map fst (mark_cases :: (string \<times> (('d, 'df) Chart \<Rightarrow> ('d, 'df) Chart)) list))"
    by (simp add: mark_cases_def)
next
  fix ts it fin ts' it' fin' c c' and x1 x2 x :: "'d field_enc"
  assume a: "parse_field_aggregate ts it fin x = Some (Inr (c, x1))"
    and b: "parse_field_aggregate ts' it' fin' x = Some (Inr (c', x2))"
    and ne: "to_upper (ts ! it) \<noteq> to_upper (ts' ! it')"
  from a have "simple_switch (ts ! it) field_aggregate_cases x = (True, x1)"
    by (auto simp: parse_field_aggregate_def deref_def split: if_splits prod.splits bool.splits)
  moreover from b have "simple_switch (ts' ! it') field_aggregate_cases x = (True, x2)"
    by (auto simp: parse_field_aggregate_def deref_def split: if_splits prod.splits bool.splits)
  ultimately show "enc_aggregate x1 \<noteq> enc_aggregate x2"
    using ne by (rule switch_injective [OF aggregate_values_distinct])
next
  fix ts it ts' it' and x1 x2 x :: "'d field_enc"
  assume a: "parse_field_time_unit ts it x = Inr x1"
    and b: "parse_field_time_unit ts' it' x = Inr x2"
    and ne: "to_upper (ts ! it) \<noteq> to_upper (ts' ! it')"
  from a have "simple_switch (ts ! it) field_time_unit_cases x = (True, x1)"
    by (auto simp: parse_field_time_unit_def deref_def split: if_splits prod.splits bool.splits)
  moreover from b have "simple_switch (ts' ! it') field_time_unit_cases x = (True, x2)"
    by (auto simp: parse_field_time_unit_def deref_def split: if_splits prod.splits bool.splits)
  ultimately show "enc_timeUnit x1 \<noteq> enc_timeUnit x2"
    using ne by (rule switch_injective [OF time_unit_values_distinct])
next
  fix ts it fin ts' it' fin' c c' and x1 x2 x :: "('d, 'df) Chart"
  assume a: "mark_parse_init ts it fin x = Some (Inr (c, x1))"
    and b: "mark_parse_init ts' it' fin' x = Some (Inr (c', x2))"
    and ne: "to_upper (ts ! it) \<noteq> to_upper (ts' ! it')"
  from a have "simple_switch (ts ! it) mark_cases x = (True, x1)"
    by (auto simp: mark_parse_init_def deref_def split: if_splits prod.splits bool.splits)
  moreover from b have "simple_switch (ts' ! it') mark_cases x = (True, x2)"
    by (auto simp: mark_parse_init_def deref_def split: if_splits prod.splits bool.splits)
  ultimately show "chart_mark x1 \<noteq> chart_mark x2"
    using ne by (rule switch_injective [OF mark_values_distinct])
qed

theorem keyword_values_injective_witness:
  "parse_field_aggregate [''mean''] 0 1 (new_field_enc :: unit field_enc)
     = Some (Inr (1, new_field_enc\<lparr>enc_aggregate := Some ''mean''\<rparr>))
   \<and> parse_field_aggregate [''MEDIAN''] 0 1 (new_field_enc :: unit field_enc)
     = Some (Inr (1, new_field_enc\<lparr>enc_aggregate := Some ''median''\<rparr>))
   \<and> enc_aggregate ((new_field_enc :: unit field_enc)\<lparr>enc_aggregate := Some ''mean''\<rparr>)
     \<noteq> enc_aggregate ((new_field_enc :: unit field_enc)\<lparr>enc_aggregate := Some ''median''\<rparr>)
   \<and> parse_field_time_unit [''Year''] 0 (new_field_enc :: unit field_enc)
     = Inr (new_field_enc\<lparr>enc_timeUnit := Some ''year''\<rparr>)
   \<and> parse_field_time_unit [''day''] 0 (new_field_enc :: unit field_enc)
     = Inr (new_field_enc\<lparr>enc_timeUnit := Some ''day''\<rparr>)
   \<and> enc_timeUnit ((new_field_enc :: unit field_enc)\<lparr>enc_timeUnit := Some ''year''\<rparr>)
     \<noteq> enc_timeUnit ((new_field_enc :: unit field_enc)\<lparr>enc_timeUnit := Some ''day''\<rparr>)
   \<and> mark_parse_init [''bar''] 0 1 (new_Chart :: (unit, unit) Chart)
     = Some (Inr (1, new_Chart\<lparr>chart_mark := Any_mark mark_bar None\<rparr>))
   \<and> mark_parse_init [''ARC''] 0 1 (new_Chart :: (unit, unit) Chart)
     = Some (Inr (1, new_Chart\<lparr>chart_mark := Any_mark mark_arc None\<rparr>))
   \<and> chart_mark ((new_Chart :: (unit, unit) Chart)\<lparr>chart_mark := Any_mark mark_bar None\<rparr>)
     \<noteq> chart_mark ((new_Chart :: (unit, unit) Chart)\<lparr>chart_mark := Any_mark mark_arc None\<rparr>)"
proof -
  let ?x = "new_field_enc :: unit field_enc"
  let ?c = "new_Chart :: (unit, unit) Chart"
  note T = keyword_values_injective [where ?'d = unit and ?'df = unit]
  note Agg = T [THEN conjunct2, THEN conjunct2, THEN conjunct2, THEN conjunct2,
      THEN conjunct2, THEN conjunct2, THEN conjunct1, rule_format]
  note Time = T [THEN conjunct2, THEN conjunct2, THEN conjunct2, THEN conjunct2,
      THEN conjunct2, THEN conjunct2, THEN conjunct2, THEN conjunct1, rule_format]
  note Mark = T [THEN conjunct2, THEN conjunct2, THEN conjunct2, THEN conjunct2,
      THEN conjunct2, THEN conjunct2, THEN conjunct2, THEN conjunct2, rule_format]
  have a1: "parse_field_aggregate [''mean''] 0 1 ?x
      = Some (Inr (1, ?x\<lparr>enc_aggregate := Some ''mean''\<rparr>))"
    by code_simp
  have a2: "parse_field_aggregate [''MEDIAN''] 0 1 ?x
      = Some (Inr (1, ?x\<lparr>enc_aggregate := Some ''median''\<rparr>))"
    by code_simp
  have a3: "to_upper ([''mean''] ! 0) \<noteq> to_upper ([''MEDIAN''] ! 0)"
    by (simp add: to_upper_def toupper_def)
  have t1: "parse_field_time_unit [''Year''] 0 ?x = Inr (?x\<lparr>enc_timeUnit := Some ''year''\<rparr>)"
    by code_simp
  have t2: "parse_field_time_unit [''day''] 0 ?x = Inr (?x\<lparr>enc_timeUnit := Some ''day''\<rparr>)"
    by code_simp
  have t3: "to_upper ([''Year''] ! 0) \<noteq> to_upper ([''day''] ! 0)"
    by (simp add: to_upper_def toupper_def)
  have m1: "mark_parse_init [''bar''] 0 1 ?c
      = Some (Inr (1, ?c\<lparr>chart_mark := Any_mark mark_bar None\<rparr>))"
    by code_simp
  have m2: "mark_parse_init [''ARC''] 0 1 ?c
      = Some (Inr (1, ?c\<lparr>chart_mark := Any_mark mark_arc None\<rparr>))"
    by code_simp
  have m3: "to_upper ([''bar''] ! 0) \<noteq> to_upper ([''ARC''] ! 0)"
    by (simp add: to_upper_def toupper_def)
  from a1 a2 Agg [OF a1 a2 a3] t1 t2 Time [OF t1 t2 t3] m1 m2 Mark [OF m1 m2 m3]
  show ?thesis by (intro conjI)
qed

text \<open>
  Claim C10. In the binning grammar, when the token after \<^verbatim>\<open>BINNED\<close> is neither
  \<^verbatim>\<open>TRUE\<close> nor \<^verbatim>\<open>FALSE\<close> (in any case), \<open>parse_bin_binned\<close> returns the parser as it
  was: nothing is stored, the counter of applied attributes keeps its value and no
  error is raised; \<open>parse_step\<close> still moves the cursor past the keyword and the
  token. The parse functions of \<^verbatim>\<open>TYPE\<close>, \<^verbatim>\<open>AGGREGATE\<close>, \<^verbatim>\<open>TIME_UNIT\<close> and \<^verbatim>\<open>GRID\<close>
  raise an error for a token that is none of their keywords.
\<close>

theorem binned_unmatched_value_is_skipped:
  "(deref ts it = Some tok \<longrightarrow> to_upper tok \<noteq> ''TRUE'' \<longrightarrow> to_upper tok \<noteq> ''FALSE'' \<longrightarrow>
      parse_bin_binned ts it p = Inr p)
   \<and> (deref ts kw = Some keyword \<longrightarrow> to_upper keyword = ''BINNED'' \<longrightarrow>
      deref ts (kw + 1) = Some tok \<longrightarrow> to_upper tok \<noteq> ''TRUE'' \<longrightarrow> to_upper tok \<noteq> ''FALSE'' \<longrightarrow>
      kw < fin \<longrightarrow>
      parse_step (bin_parser stod) ts kw fin p = Some (Inr (kw + 2, p)))
   \<and> (deref ts it = Some tok \<longrightarrow>
      to_upper tok \<notin> fst ` set (field_type_cases :: (string \<times> ('d field_enc \<Rightarrow> 'd field_enc)) list) \<longrightarrow>
      parse_field_type ts it (x :: 'd field_enc) = Inl (Runtime_error ''Missing or invalid TYPE type''))
   \<and> (deref ts it = Some tok \<longrightarrow>
      to_upper tok \<notin> fst ` set (field_aggregate_cases :: (string \<times> ('d field_enc \<Rightarrow> 'd field_enc)) list) \<longrightarrow>
      parse_field_aggregate ts it fin (x :: 'd field_enc)
        = Some (Inl (Runtime_error ''Missing or invalid AGGREGATE type'')))
   \<and> (deref ts it = Some tok \<longrightarrow>
      to_upper tok \<notin> fst ` set (field_time_unit_cases :: (string \<times> ('d field_enc \<Rightarrow> 'd field_enc)) list) \<longrightarrow>
      parse_field_time_unit ts it (x :: 'd field_enc)
        = Inl (Runtime_error ''Missing or invalid TIME_UNIT type''))
   \<and> (deref ts it = Some tok \<longrightarrow> to_upper tok \<noteq> ''TRUE'' \<longrightarrow> to_upper tok \<noteq> ''FALSE'' \<longrightarrow>
      parse_grid ts it (chart :: ('d, 'df) Chart) = Inl (Runtime_error ''Missing or invalid GRID type''))"
proof (intro conjI impI)
  assume "deref ts it = Some tok" "to_upper tok \<noteq> ''TRUE''" "to_upper tok \<noteq> ''FALSE''"
  then show "parse_bin_binned ts it p = Inr p"
    by (simp add: parse_bin_binned_def simple_switch_def)
next
  assume "deref ts kw = Some keyword" "to_upper keyword = ''BINNED''"
    "deref ts (kw + 1) = Some tok" "to_upper tok \<noteq> ''TRUE''" "to_upper tok \<noteq> ''FALSE''"
    "kw < fin"
  then show "parse_step (bin_parser stod) ts kw fin p = Some (Inr (kw + 2, p))"
    by (auto simp: parse_step_def bin_parser_def bin_mapping_table_def parse_bin_binned_def
        simple_switch_def deref_def split: if_splits)
next
  assume "deref ts it = Some tok"
    and "to_upper tok \<notin> fst ` set (field_type_cases :: (string \<times> ('d field_enc \<Rightarrow> 'd field_enc)) list)"
  then have "deref ts it = Some tok"
    and "map_of (field_type_cases :: (string \<times> ('d field_enc \<Rightarrow> 'd field_enc)) list) (to_upper tok) = None"
    by (simp_all add: map_of_eq_None_iff)
  then show "parse_field_type ts it x = Inl (Runtime_error ''Missing or invalid TYPE type'')"
    by (simp add: parse_field_type_def simple_switch_def)
next
  assume "deref ts it = Some tok"
    and "to_upper tok \<notin> fst ` set (field_aggregate_cases :: (string \<times> ('d field_enc \<Rightarrow> 'd field_enc)) list)"
  then have "deref ts it = Some tok"
    and "map_of (field_aggregate_cases :: (string \<times> ('d field_enc \<Rightarrow> 'd field_enc)) list) (to_upper tok) = None"
    by (simp_all add: map_of_eq_None_iff)
  then show "parse_field_aggregate ts it fin x
        = Some (Inl (Runtime_error ''Missing or invalid AGGREGATE type''))"
    by (simp add: parse_field_aggregate_def simple_switch_def)
next
  assume "deref ts it = Some tok"
    and "to_upper tok \<notin> fst ` set (field_time_unit_cases :: (string \<times> ('d field_enc \<Rightarrow> 'd field_enc)) list)"
  then have "deref ts it = Some tok"
    and "map_of (field_time_unit_cases :: (string \<times> ('d field_enc \<Rightarrow> 'd field_enc)) list) (to_upper tok) = None"
    by (simp_all add: map_of_eq_None_iff)
  then show "parse_field_time_unit ts it x = Inl (Runtime_error ''Missing or invalid TIME_UNIT type'')"
    by (simp add: parse_field_time_unit_def simple_switch_def)
next
  assume "deref ts it = Some tok" "to_upper tok \<noteq> ''TRUE''" "to_upper tok \<noteq> ''FALSE''"
  then show "parse_grid ts it chart = Inl (Runtime_error ''Missing or invalid GRID type'')"
    by (simp add: parse_grid_def simple_switch_def)
qed

theorem binned_unmatched_value_is_skipped_witness:
  "parse_bin_binned [''Binned'', ''maybe'', ''STEP'', ''2''] 1
       (\<lparr>bin = new_Bin, num_parsed_attrs = 0\<rparr> :: string bin_parser)
     = Inr \<lparr>bin = new_Bin, num_parsed_attrs = 0\<rparr>
   \<and> parse_step (bin_parser (\<lambda>s. Inr s)) [''Binned'', ''maybe'', ''STEP'', ''2''] 0 4
       \<lparr>bin = new_Bin, num_parsed_attrs = 0\<rparr>
     = Some (Inr (2, \<lparr>bin = new_Bin, num_parsed_attrs = 0\<rparr>))
   \<and> parse_field_type [''Binned'', ''maybe'', ''STEP'', ''2''] 1 (new_field_enc :: string field_enc)
     = Inl (Runtime_error ''Missing or invalid TYPE type'')
   \<and> parse_field_aggregate [''Binned'', ''maybe'', ''STEP'', ''2''] 1 4 (new_field_enc :: string field_enc)
     = Some (Inl (Runtime_error ''Missing or invalid AGGREGATE type''))
   \<and> parse_field_time_unit [''Binned'', ''maybe'', ''STEP'', ''2''] 1 (new_field_enc :: string field_enc)
     = Inl (Runtime_error ''Missing or invalid TIME_UNIT type'')
   \<and> parse_grid [''Binned'', ''maybe'', ''STEP'', ''2''] 1 (new_Chart :: (string, unit) Chart)
     = Inl (Runtime_error ''Missing or invalid GRID type'')"
proof -
  let ?ts = "[''Binned'', ''maybe'', ''STEP'', ''2'']"
  let ?p = "\<lparr>bin = new_Bin, num_parsed_attrs = 0\<rparr> :: string bin_parser"
  note T = binned_unmatched_value_is_skipped [where ts = ?ts and it = 1 and tok = "''maybe''"
      and kw = 0 and keyword = "''Binned''" and fin = 4 and p = ?p
      and stod = "\<lambda>s. Inr s" and x = "new_field_enc :: string field_enc"
      and chart = "new_Chart :: (string, unit) Chart"]
  have tok: "deref ?ts 1 = Some ''maybe''" by (simp add: deref_def)
  have tok': "deref ?ts (0 + 1) = Some ''maybe''" by (simp add: deref_def)
  have kw: "deref ?ts 0 = Some ''Binned''" by (simp add: deref_def)
  have up: "to_upper ''Binned'' = ''BINNED''" by (simp add: to_upper_def toupper_def)
  have nt: "to_upper ''maybe'' \<noteq> ''TRUE''" by (simp add: to_upper_def toupper_def)
  have nf: "to_upper ''maybe'' \<noteq> ''FALSE''" by (simp add: to_upper_def toupper_def)
  have lt: "(0::nat) < 4" by simp
  have ty: "to_upper ''maybe''
      \<notin> fst ` set (field_type_cases :: (string \<times> (string field_enc \<Rightarrow> string field_enc)) list)"
    by (simp add: field_type_cases_def to_upper_def toupper_def)
  have ag: "to_upper ''maybe''
      \<notin> fst ` set (field_aggregate_cases :: (string \<times> (string field_enc \<Rightarrow> string field_enc)) list)"
    by (simp add: field_aggregate_cases_def to_upper_def toupper_def)
  have tu: "to_upper ''maybe''
      \<notin> fst ` set (field_time_unit_cases :: (string \<times> (string field_enc \<Rightarrow> string field_enc)) list)"
    by (simp add: field_time_unit_cases_def to_upper_def toupper_def)
  have step: "parse_step (bin_parser (\<lambda>s. Inr s)) ?ts 0 4 ?p = Some (Inr (2, ?p))"
    using T [THEN conjunct2, THEN conjunct1, rule_format, OF kw up tok' nt nf lt] by simp
  from T [THEN conjunct1, rule_format, OF tok nt nf] step
    T [THEN conjunct2, THEN conjunct2, THEN conjunct1, rule_format, OF tok ty]
    T [THEN conjunct2, THEN conjunct2, THEN conjunct2, THEN conjunct1, rule_format, OF tok ag]
    T [THEN conjunct2, THEN conjunct2, THEN conjunct2, THEN conjunct2, THEN conjunct1,
      rule_format, OF tok tu]
    T [THEN conjunct2, THEN conjunct2, THEN conjunct2, THEN conjunct2, THEN conjunct2,
      rule_format, OF tok nt nf]
  show ?thesis by (intro conjI)
qed

end
